theory Spec2Isabelle
  imports Main "HOL-Library.AList"
begin

section \<open>JavaScript values and objects\<close>

text \<open>
  The engine handles untyped request bodies and open-ended user records
  (\<^verbatim>\<open>[key: string]: any\<close>), so values are modelled dynamically. An object is an
  association list in insertion order; \<open>AList.update\<close> is property assignment (an
  existing key keeps its position, a new key is appended) and \<open>AList.delete\<close> is what
  a rest pattern \<^verbatim>\<open>const { k, ...rest } = o\<close> leaves. Numbers are integers and dates are
  epoch readings; nested objects are not needed by the engine. Integer-like keys, which
  JavaScript enumerates first, are not treated specially.
\<close>

datatype jsval =
    JUndefined
  | JNull
  | JBool bool
  | JNum int
  | JStr string
  | JDate int

type_synonym jsobj = "(string \<times> jsval) list"

fun truthy :: "jsval \<Rightarrow> bool" where
  "truthy JUndefined = False"
| "truthy JNull = False"
| "truthy (JBool b) = b"
| "truthy (JNum n) = (n \<noteq> 0)"
| "truthy (JStr s) = (s \<noteq> [])"
| "truthy (JDate d) = True"

definition obj_get :: "jsobj \<Rightarrow> string \<Rightarrow> jsval" where
  "obj_get obj k = (case map_of obj k of None \<Rightarrow> JUndefined | Some v \<Rightarrow> v)"

definition obj_keys :: "jsobj \<Rightarrow> string list" where
  "obj_keys obj = map fst obj"

text \<open>\<^verbatim>\<open>{ ...acc, ...src }\<close>: the properties of \<open>src\<close> assigned onto \<open>acc\<close> in order.\<close>

definition obj_spread :: "jsobj \<Rightarrow> jsobj \<Rightarrow> jsobj" where
  "obj_spread acc src = fold (\<lambda>kv a. AList.update (fst kv) (snd kv) a) src acc"

fun join :: "string \<Rightarrow> string list \<Rightarrow> string" where
  "join sep [] = []"
| "join sep [x] = x"
| "join sep (x # y # ys) = x @ sep @ join sep (y # ys)"

section \<open>Exceptions and asynchronous effects\<close>

text \<open>
  A thrown value is classified by the \<^verbatim>\<open>instanceof\<close> tests the code performs on it.
  \<open>JsonWebTokenError\<close> stands for any instance of that class of the token library other
  than its subclass \<open>TokenExpiredError\<close>; \<open>Error\<close> stands for every other thrown value.
  The string carried is what \<^verbatim>\<open>'...' + error.message\<close> appends.
\<close>

record ZodIssue =
  path :: "string list"
  message :: string

datatype exn =
    ZodError "ZodIssue list"
  | TokenExpiredError string
  | JsonWebTokenError string
  | Error string

fun exn_message :: "exn \<Rightarrow> string" where
  "exn_message (ZodError issues) = concat (map message issues)"
| "exn_message (TokenExpiredError m) = m"
| "exn_message (JsonWebTokenError m) = m"
| "exn_message (Error m) = m"

fun instanceof_JsonWebTokenError :: "exn \<Rightarrow> bool" where
  "instanceof_JsonWebTokenError (TokenExpiredError m) = True"
| "instanceof_JsonWebTokenError (JsonWebTokenError m) = True"
| "instanceof_JsonWebTokenError e = False"

text \<open>
  Everything awaited (storage, hashing, token signing, callbacks) may read and change the
  world \<open>'w\<close> and may throw: a computation maps the world to a result or an exception,
  and the world after it.
\<close>

type_synonym ('w, 'a) io = "'w \<Rightarrow> (exn + 'a) \<times> 'w"

definition io_return :: "'a \<Rightarrow> ('w, 'a) io" where
  "io_return x = (\<lambda>w. (Inr x, w))"

definition io_throw :: "exn \<Rightarrow> ('w, 'a) io" where
  "io_throw e = (\<lambda>w. (Inl e, w))"

definition io_of :: "exn + 'a \<Rightarrow> ('w, 'a) io" where
  "io_of r = (\<lambda>w. (r, w))"

definition io_bind :: "('w, 'a) io \<Rightarrow> ('a \<Rightarrow> ('w, 'b) io) \<Rightarrow> ('w, 'b) io" where
  "io_bind m f = (\<lambda>w. case m w of (Inl e, w') \<Rightarrow> (Inl e, w') | (Inr x, w') \<Rightarrow> f x w')"

text \<open>\<^verbatim>\<open>try { m } catch (error) { h(error) }\<close>\<close>

definition io_catch :: "('w, 'a) io \<Rightarrow> (exn \<Rightarrow> ('w, 'a) io) \<Rightarrow> ('w, 'a) io" where
  "io_catch m h = (\<lambda>w. case m w of (Inl e, w') \<Rightarrow> h e w' | (Inr x, w') \<Rightarrow> (Inr x, w'))"

section \<open>The validation library\<close>

text \<open>
  A schema for one field maps the raw value to the parsed value or to its issues (with
  paths relative to the field). The two string rules the engine builds itself are
  written out: a non-string is an invalid-type issue with the library's message, and a
  string failing the check yields the message the engine passed. The library's email
  pattern is a parameter. A string is its list of code units, so \<open>length\<close> is the
  \<^verbatim>\<open>.length\<close> that the minimum is compared with.
\<close>

type_synonym ZodType = "jsval \<Rightarrow> ZodIssue list + jsval"

fun received_type :: "jsval \<Rightarrow> string" where
  "received_type JUndefined = ''undefined''"
| "received_type JNull = ''null''"
| "received_type (JBool b) = ''boolean''"
| "received_type (JNum n) = ''number''"
| "received_type (JStr s) = ''string''"
| "received_type (JDate d) = ''date''"

definition invalid_type_issue :: "string \<Rightarrow> jsval \<Rightarrow> ZodIssue" where
  "invalid_type_issue expected v =
     \<lparr>path = [],
      message = (if v = JUndefined then ''Required''
                 else ''Expected '' @ expected @ '', received '' @ received_type v)\<rparr>"

definition z_string_email :: "(string \<Rightarrow> bool) \<Rightarrow> string \<Rightarrow> ZodType" where
  "z_string_email email_regex msg v =
     (case v of
        JStr s \<Rightarrow> if email_regex s then Inr (JStr s) else Inl [\<lparr>path = [], message = msg\<rparr>]
      | _ \<Rightarrow> Inl [invalid_type_issue ''string'' v])"

definition z_string_min :: "nat \<Rightarrow> string \<Rightarrow> ZodType" where
  "z_string_min n msg v =
     (case v of
        JStr s \<Rightarrow> if length s < n then Inl [\<lparr>path = [], message = msg\<rparr>] else Inr (JStr s)
      | _ \<Rightarrow> Inl [invalid_type_issue ''string'' v])"

text \<open>
  \<^verbatim>\<open>z.object(shape).parse(data)\<close>: every key of the shape is parsed, in the order of the
  shape, against \<^verbatim>\<open>data[key]\<close>; the issues of all fields are collected under the field's
  name and thrown together. On success the result holds the parsed fields (a field that
  is absent from the input and parses to \<^verbatim>\<open>undefined\<close> is left out) and, with
  \<^verbatim>\<open>.passthrough()\<close>, the input's other properties.
\<close>

definition field_issues :: "jsobj \<Rightarrow> string \<times> ZodType \<Rightarrow> ZodIssue list" where
  "field_issues data kz =
     (case snd kz (obj_get data (fst kz)) of
        Inl issues \<Rightarrow> map (\<lambda>i. i\<lparr>path := fst kz # path i\<rparr>) issues
      | Inr v \<Rightarrow> [])"

definition field_value :: "jsobj \<Rightarrow> string \<times> ZodType \<Rightarrow> jsobj" where
  "field_value data kz =
     (case snd kz (obj_get data (fst kz)) of
        Inl issues \<Rightarrow> []
      | Inr v \<Rightarrow> if v = JUndefined \<and> fst kz \<notin> set (obj_keys data) then [] else [(fst kz, v)])"

definition field_ok :: "jsobj \<Rightarrow> string \<times> ZodType \<Rightarrow> bool" where
  "field_ok data kz =
     (case snd kz (obj_get data (fst kz)) of Inl issues \<Rightarrow> False | Inr v \<Rightarrow> True)"

definition zobject_parse :: "(string \<times> ZodType) list \<Rightarrow> bool \<Rightarrow> jsobj \<Rightarrow> exn + jsobj" where
  "zobject_parse shape passthrough data =
     (if \<not> list_all (field_ok data) shape
      then Inl (ZodError (concat (map (field_issues data) shape)))
      else Inr (concat (map (field_value data) shape) @
                (if passthrough
                 then filter (\<lambda>kv. fst kv \<notin> set (map fst shape)) data
                 else [])))"

section \<open>Types of the library (types/index.ts)\<close>

record AuthResult =
  success :: bool
  user :: "jsobj option"
  token :: "string option"
  error :: "string option"
  errors :: "(string \<times> string) list option"

text \<open>What a custom validator returns: \<^verbatim>\<open>{ success, errors? }\<close>.\<close>

record CustomResult =
  cv_success :: bool
  cv_errors :: "(string \<times> string) list option"

record ValidationConfig =
  email :: "ZodType option"
  password :: "ZodType option"
  fields' :: "(string \<times> ZodType) list option"
  customValidator :: "(jsobj \<Rightarrow> exn + CustomResult) option"

record SessionConfig =
  session_secret :: string
  session_expiresIn :: "jsval option"

record 'w AuthCallbacks =
  onLogin :: "(jsobj \<Rightarrow> ('w, unit) io) option"
  onRegister :: "(jsobj \<Rightarrow> ('w, unit) io) option"
  onLogout :: "(jsobj \<Rightarrow> ('w, unit) io) option"

record 'w DatabaseAdapter =
  findUserByEmail :: "jsval \<Rightarrow> ('w, jsobj option) io"
  findUserById :: "string \<Rightarrow> ('w, jsobj option) io"
  createUser :: "jsobj \<Rightarrow> ('w, jsobj) io"
  updateUser :: "string \<Rightarrow> jsobj \<Rightarrow> ('w, jsobj) io"
  deleteUser :: "string \<Rightarrow> ('w, unit) io"

record 'w AuthStrategy =
  name :: string
  authenticate :: "jsobj \<Rightarrow> ('w, AuthResult) io"
  verify :: "string \<Rightarrow> ('w, AuthResult) io"
  generateToken :: "jsobj \<Rightarrow> ('w, string) io"

record 'w AuthConfig =
  adapter :: "'w DatabaseAdapter"
  strategy :: "'w AuthStrategy"
  session :: "SessionConfig option"
  callbacks :: "'w AuthCallbacks option"
  validation :: "ValidationConfig option"

section \<open>The external libraries the code calls\<close>

text \<open>
  The password hashing functions, the token signing and verification functions and the
  email pattern of the validation library are parameters of the model. Hashing draws a
  salt, and signing and verifying read the clock, so they act on the world.
\<close>

record SignOptions =
  sign_expiresIn :: "jsval option"
  sign_issuer :: "string option"
  sign_audience :: "string option"

record VerifyOptions =
  verify_issuer :: "string option"
  verify_audience :: "string option"

text \<open>\<^verbatim>\<open>jwt.verify\<close> returns the decoded claims, an object (the code's cast to
  \<^verbatim>\<open>jwt.JwtPayload\<close>).\<close>

record 'w libs =
  bcrypt_hash :: "jsval \<Rightarrow> nat \<Rightarrow> ('w, string) io"
  bcrypt_compare :: "jsval \<Rightarrow> jsval \<Rightarrow> ('w, bool) io"
  jwt_sign :: "jsobj \<Rightarrow> string \<Rightarrow> SignOptions \<Rightarrow> ('w, string) io"
  jwt_verify :: "string \<Rightarrow> string \<Rightarrow> VerifyOptions \<Rightarrow> ('w, jsobj) io"
  email_regex :: "string \<Rightarrow> bool"

section \<open>The authentication engine (core/engine.ts)\<close>

definition SALT_ROUNDS :: nat where
  "SALT_ROUNDS = 12"

definition defaultLoginSchema :: "'w libs \<Rightarrow> (string \<times> ZodType) list" where
  "defaultLoginSchema L =
     [(''email'', z_string_email (email_regex L) ''Invalid email format''),
      (''password'', z_string_min 1 ''Password is required'')]"

definition defaultRegisterSchema :: "'w libs \<Rightarrow> (string \<times> ZodType) list" where
  "defaultRegisterSchema L =
     [(''email'', z_string_email (email_regex L) ''Invalid email format''),
      (''password'', z_string_min 6 ''Password must be at least 6 characters'')]"

record 'w AuthEngine =
  this_adapter :: "'w DatabaseAdapter"
  this_strategy :: "'w AuthStrategy"
  this_config :: "'w AuthConfig"
  this_validationConfig :: ValidationConfig

text \<open>The constructor: \<^verbatim>\<open>config.validation || {}\<close>.\<close>

definition new_AuthEngine :: "'w AuthConfig \<Rightarrow> 'w AuthEngine" where
  "new_AuthEngine cfg =
     \<lparr>this_adapter = adapter cfg,
      this_strategy = strategy cfg,
      this_config = cfg,
      this_validationConfig =
        (case validation cfg of
           None \<Rightarrow> \<lparr>email = None, password = None, fields' = None, customValidator = None\<rparr>
         | Some v \<Rightarrow> v)\<rparr>"

definition buildRegisterSchema :: "'w libs \<Rightarrow> 'w AuthEngine \<Rightarrow> (string \<times> ZodType) list" where
  "buildRegisterSchema L this =
     (let emailValidation =
            (case email (this_validationConfig this) of
               Some z \<Rightarrow> z
             | None \<Rightarrow> z_string_email (email_regex L) ''Invalid email format'');
          passwordValidation =
            (case password (this_validationConfig this) of
               Some z \<Rightarrow> z
             | None \<Rightarrow> z_string_min 6 ''Password must be at least 6 characters'');
          schema = [(''email'', emailValidation), (''password'', passwordValidation)]
      in case fields' (this_validationConfig this) of
           None \<Rightarrow> schema
         | Some fs \<Rightarrow> fold (\<lambda>fv s. AList.update (fst fv) (snd fv) s) fs schema)"

definition formatZodError :: "ZodIssue list \<Rightarrow> (string \<times> string) list" where
  "formatZodError issues =
     fold (\<lambda>err errs.
             let p = join ''.'' (path err)
             in if p \<noteq> [] then AList.update p (message err) errs else errs)
          issues []"

definition sanitizeUser :: "jsobj \<Rightarrow> jsobj" where
  "sanitizeUser u = AList.delete ''password'' u"

text \<open>
  The \<^verbatim>\<open>instanceof z.ZodError\<close> branch of both catch blocks:
  \<^verbatim>\<open>Object.values(errors)[0] || 'Validation failed'\<close>.
\<close>

definition firstError :: "(string \<times> string) list \<Rightarrow> string" where
  "firstError errs =
     (case errs of
        [] \<Rightarrow> ''Validation failed''
      | kv # rest \<Rightarrow> if snd kv = [] then ''Validation failed'' else snd kv)"

definition zodErrorResult :: "ZodIssue list \<Rightarrow> AuthResult" where
  "zodErrorResult issues =
     (let errs = formatZodError issues
      in \<lparr>success = False, user = None, token = None,
          error = Some (firstError errs), errors = Some errs\<rparr>)"

fun register_catch :: "exn \<Rightarrow> AuthResult" where
  "register_catch (ZodError issues) = zodErrorResult issues"
| "register_catch e =
     \<lparr>success = False, user = None, token = None,
      error = Some (''Registration failed: '' @ exn_message e), errors = None\<rparr>"

fun login_catch :: "exn \<Rightarrow> AuthResult" where
  "login_catch (ZodError issues) = zodErrorResult issues"
| "login_catch e =
     \<lparr>success = False, user = None, token = None,
      error = Some (''Login failed: '' @ exn_message e), errors = None\<rparr>"

text \<open>The object handed to \<^verbatim>\<open>createUser\<close>:
  \<^verbatim>\<open>{ email: validated.email, password: hashedPassword, ...customFields }\<close>, where
  \<^verbatim>\<open>customFields\<close> is \<^verbatim>\<open>validated\<close> without its password.\<close>

definition createUserData :: "jsobj \<Rightarrow> string \<Rightarrow> jsobj" where
  "createUserData validated hashedPassword =
     obj_spread [(''email'', obj_get validated ''email''), (''password'', JStr hashedPassword)]
                (AList.delete ''password'' validated)"

definition userExistsResult :: AuthResult where
  "userExistsResult =
     \<lparr>success = False, user = None, token = None,
      error = Some ''User already exists'',
      errors = Some [(''email'', ''This email is already registered'')]\<rparr>"

definition invalidCredentialsResult :: AuthResult where
  "invalidCredentialsResult =
     \<lparr>success = False, user = None, token = None,
      error = Some ''Invalid credentials'',
      errors = Some [(''general'', ''Invalid email or password'')]\<rparr>"

text \<open>The callback \<^verbatim>\<open>this.config.callbacks?.onX\<close>, awaited when configured.\<close>

definition run_callback ::
  "'w AuthCallbacks option \<Rightarrow> ('w AuthCallbacks \<Rightarrow> (jsobj \<Rightarrow> ('w, unit) io) option) \<Rightarrow>
   jsobj \<Rightarrow> ('w, unit) io" where
  "run_callback cbs sel u =
     (case cbs of
        None \<Rightarrow> io_return ()
      | Some c \<Rightarrow> (case sel c of None \<Rightarrow> io_return () | Some f \<Rightarrow> f u))"

text \<open>
  The part of \<^verbatim>\<open>register\<close> after the custom validator: schema validation, the
  duplicate check, hashing, persistence, the callback and the token.
\<close>

definition register_validated :: "'w libs \<Rightarrow> 'w AuthEngine \<Rightarrow> jsobj \<Rightarrow> ('w, AuthResult) io" where
  "register_validated L this data =
     io_bind (io_of (zobject_parse (buildRegisterSchema L this) True data)) (\<lambda>validated.
     io_bind (findUserByEmail (this_adapter this) (obj_get validated ''email'')) (\<lambda>existingUser.
       case existingUser of
         Some existing \<Rightarrow> io_return userExistsResult
       | None \<Rightarrow>
     io_bind (bcrypt_hash L (obj_get validated ''password'') SALT_ROUNDS) (\<lambda>hashedPassword.
     io_bind (createUser (this_adapter this) (createUserData validated hashedPassword)) (\<lambda>u.
     io_bind (run_callback (callbacks (this_config this)) onRegister u) (\<lambda>done.
     io_bind (generateToken (this_strategy this) u) (\<lambda>tok.
     io_return \<lparr>success = True, user = Some (sanitizeUser u), token = Some tok,
                error = None, errors = None\<rparr>))))))"

definition register :: "'w libs \<Rightarrow> 'w AuthEngine \<Rightarrow> jsobj \<Rightarrow> ('w, AuthResult) io" where
  "register L this data =
     io_catch
       (case customValidator (this_validationConfig this) of
          None \<Rightarrow> register_validated L this data
        | Some cv \<Rightarrow>
            io_bind (io_of (cv data)) (\<lambda>customResult.
              if \<not> cv_success customResult
              then io_return \<lparr>success = False, user = None, token = None,
                              error = Some ''Validation failed'',
                              errors = cv_errors customResult\<rparr>
              else register_validated L this data))
       (\<lambda>e. io_return (register_catch e))"

text \<open>The part of \<^verbatim>\<open>login\<close> after the schema has accepted the credentials.\<close>

definition login_validated :: "'w libs \<Rightarrow> 'w AuthEngine \<Rightarrow> jsobj \<Rightarrow> ('w, AuthResult) io" where
  "login_validated L this validated =
     io_bind (findUserByEmail (this_adapter this) (obj_get validated ''email'')) (\<lambda>found.
       case found of
         None \<Rightarrow> io_return invalidCredentialsResult
       | Some u \<Rightarrow>
           if \<not> truthy (obj_get u ''password'') then io_return invalidCredentialsResult
           else
     io_bind (bcrypt_compare L (obj_get validated ''password'') (obj_get u ''password''))
       (\<lambda>isValid.
           if \<not> isValid then io_return invalidCredentialsResult
           else
     io_bind (run_callback (callbacks (this_config this)) onLogin u) (\<lambda>done.
     io_bind (generateToken (this_strategy this) u) (\<lambda>tok.
     io_return \<lparr>success = True, user = Some (sanitizeUser u), token = Some tok,
                error = None, errors = None\<rparr>))))"

definition login :: "'w libs \<Rightarrow> 'w AuthEngine \<Rightarrow> jsobj \<Rightarrow> ('w, AuthResult) io" where
  "login L this credentials =
     io_catch
       (io_bind (io_of (zobject_parse (defaultLoginSchema L) False credentials))
          (login_validated L this))
       (\<lambda>e. io_return (login_catch e))"

definition verifyToken :: "'w AuthEngine \<Rightarrow> string \<Rightarrow> ('w, AuthResult) io" where
  "verifyToken this tok = verify (this_strategy this) tok"

definition getUser :: "'w AuthEngine \<Rightarrow> string \<Rightarrow> ('w, jsobj option) io" where
  "getUser this uid =
     io_bind (findUserById (this_adapter this) uid) (\<lambda>found.
       io_return (case found of Some u \<Rightarrow> Some (sanitizeUser u) | None \<Rightarrow> None))"

definition engine_updateUser :: "'w AuthEngine \<Rightarrow> string \<Rightarrow> jsobj \<Rightarrow> ('w, jsobj) io" where
  "engine_updateUser this uid data =
     io_bind (updateUser (this_adapter this) uid data) (\<lambda>u. io_return (sanitizeUser u))"

definition engine_deleteUser :: "'w AuthEngine \<Rightarrow> string \<Rightarrow> ('w, unit) io" where
  "engine_deleteUser this uid = deleteUser (this_adapter this) uid"

definition logout :: "'w AuthEngine \<Rightarrow> jsobj \<Rightarrow> ('w, unit) io" where
  "logout this u = run_callback (callbacks (this_config this)) onLogout u"

section \<open>The default token strategy (strategies/jwt.ts)\<close>

record JWTStrategyConfig =
  secret :: string
  expiresIn :: "jsval option"
  issuer :: "string option"
  audience :: "string option"

text \<open>The constructor: \<^verbatim>\<open>{ expiresIn: '7d', ...config }\<close>.\<close>

definition new_JWTStrategyConfig :: "JWTStrategyConfig \<Rightarrow> JWTStrategyConfig" where
  "new_JWTStrategyConfig c =
     c\<lparr>expiresIn := (case expiresIn c of None \<Rightarrow> Some (JStr ''7d'') | Some e \<Rightarrow> Some e)\<rparr>"

definition JWTStrategy_authenticate :: "jsobj \<Rightarrow> ('w, AuthResult) io" where
  "JWTStrategy_authenticate credentials =
     io_return \<lparr>success = False, user = None, token = None,
       error = Some ''JWT strategy does not support direct authentication. Use login flow instead.'',
       errors = None\<rparr>"

fun verify_catch :: "exn \<Rightarrow> AuthResult" where
  "verify_catch (TokenExpiredError m) =
     \<lparr>success = False, user = None, token = None, error = Some ''Token expired'', errors = None\<rparr>"
| "verify_catch e =
     (if instanceof_JsonWebTokenError e
      then \<lparr>success = False, user = None, token = None,
            error = Some ''Invalid token'', errors = None\<rparr>
      else \<lparr>success = False, user = None, token = None,
            error = Some ''Token verification failed'', errors = None\<rparr>)"

definition JWTStrategy_verify :: "'w libs \<Rightarrow> JWTStrategyConfig \<Rightarrow> string \<Rightarrow> ('w, AuthResult) io" where
  "JWTStrategy_verify L config tok =
     io_catch
       (io_bind (jwt_verify L tok (secret config)
                   \<lparr>verify_issuer = issuer config, verify_audience = audience config\<rparr>)
          (\<lambda>decoded.
             if \<not> truthy (obj_get decoded ''sub'')
             then io_return \<lparr>success = False, user = None, token = None,
                             error = Some ''Invalid token payload'', errors = None\<rparr>
             else io_return
                    \<lparr>success = True,
                     user = Some (obj_spread [(''id'', obj_get decoded ''sub''),
                                              (''email'', obj_get decoded ''email'')] decoded),
                     token = None, error = None, errors = None\<rparr>))
       (\<lambda>e. io_return (verify_catch e))"

text \<open>
  The claim set of \<^verbatim>\<open>generateToken\<close>: \<^verbatim>\<open>sub\<close> and \<^verbatim>\<open>email\<close>, then every key of the
  user other than \<^verbatim>\<open>id\<close> and \<^verbatim>\<open>password\<close>, spread over them.
\<close>

definition token_payload :: "jsobj \<Rightarrow> jsobj" where
  "token_payload u =
     obj_spread [(''sub'', obj_get u ''id''), (''email'', obj_get u ''email'')]
       (fold (\<lambda>key acc. AList.update key (obj_get u key) acc)
             (filter (\<lambda>key. key \<notin> set [''id'', ''password'']) (obj_keys u)) [])"

definition sign_options :: "JWTStrategyConfig \<Rightarrow> SignOptions" where
  "sign_options config =
     \<lparr>sign_expiresIn = expiresIn config,
      sign_issuer = (case issuer config of
                       Some i \<Rightarrow> if i \<noteq> [] then Some i else None | None \<Rightarrow> None),
      sign_audience = (case audience config of
                         Some a \<Rightarrow> if a \<noteq> [] then Some a else None | None \<Rightarrow> None)\<rparr>"

definition JWTStrategy_generateToken :: "'w libs \<Rightarrow> JWTStrategyConfig \<Rightarrow> jsobj \<Rightarrow> ('w, string) io" where
  "JWTStrategy_generateToken L config u =
     jwt_sign L (token_payload u) (secret config) (sign_options config)"

definition JWTStrategy :: "'w libs \<Rightarrow> JWTStrategyConfig \<Rightarrow> 'w AuthStrategy" where
  "JWTStrategy L c =
     (let config = new_JWTStrategyConfig c
      in \<lparr>name = ''jwt'',
          authenticate = JWTStrategy_authenticate,
          verify = JWTStrategy_verify L config,
          generateToken = JWTStrategy_generateToken L config\<rparr>)"

section \<open>The in-memory adapter (adapters/memory.ts)\<close>

text \<open>
  The adapter's two maps live in the world, next to what its environment supplies:
  the draws of \<^verbatim>\<open>crypto.randomUUID()\<close>, the clock read by \<^verbatim>\<open>new Date()\<close>, and the
  table of the reference token library below.
\<close>

record world =
  users :: "(string \<times> jsobj) list"
  emailIndex :: "(string \<times> string) list"
  uuid_supply :: "nat \<Rightarrow> string"
  uuid_drawn :: nat
  clock :: int
  issued :: "(string \<times> string \<times> jsobj) list"

definition randomUUID :: "(world, string) io" where
  "randomUUID = (\<lambda>w. (Inr (uuid_supply w (uuid_drawn w)), w\<lparr>uuid_drawn := Suc (uuid_drawn w)\<rparr>))"

definition new_Date :: "(world, jsval) io" where
  "new_Date = (\<lambda>w. (Inr (JDate (clock w)), w))"

text \<open>\<^verbatim>\<open>toLowerCase\<close> on the ASCII letters; on anything but a string the call throws.\<close>

definition lower_char :: "char \<Rightarrow> char" where
  "lower_char c =
     (case map_of (zip ''ABCDEFGHIJKLMNOPQRSTUVWXYZ'' ''abcdefghijklmnopqrstuvwxyz'') c of
        Some l \<Rightarrow> l
      | None \<Rightarrow> c)"

definition toLowerCase :: "jsval \<Rightarrow> exn + string" where
  "toLowerCase v =
     (case v of
        JStr s \<Rightarrow> Inr (map lower_char s)
      | _ \<Rightarrow> Inl (Error ''toLowerCase is not a function''))"

definition MemoryAdapter_findUserByEmail :: "jsval \<Rightarrow> (world, jsobj option) io" where
  "MemoryAdapter_findUserByEmail em =
     io_bind (io_of (toLowerCase em)) (\<lambda>key w.
       case map_of (emailIndex w) key of
         None \<Rightarrow> (Inr None, w)
       | Some uid \<Rightarrow> if uid = [] then (Inr None, w) else (Inr (map_of (users w) uid), w))"

definition MemoryAdapter_findUserById :: "string \<Rightarrow> (world, jsobj option) io" where
  "MemoryAdapter_findUserById uid = (\<lambda>w. (Inr (map_of (users w) uid), w))"

definition MemoryAdapter_createUser :: "jsobj \<Rightarrow> (world, jsobj) io" where
  "MemoryAdapter_createUser data =
     io_bind randomUUID (\<lambda>uid.
     io_bind new_Date (\<lambda>createdAt.
     io_bind new_Date (\<lambda>updatedAt.
       let u = AList.update ''updatedAt'' updatedAt
                 (AList.update ''createdAt'' createdAt (obj_spread [(''id'', JStr uid)] data))
       in io_bind (\<lambda>w. (Inr (), w\<lparr>users := AList.update uid u (users w)\<rparr>)) (\<lambda>stored.
          io_bind (io_of (toLowerCase (obj_get data ''email''))) (\<lambda>key.
          io_bind (\<lambda>w. (Inr (), w\<lparr>emailIndex := AList.update key uid (emailIndex w)\<rparr>))
            (\<lambda>indexed. io_return u))))))"

definition MemoryAdapter_updateUser :: "string \<Rightarrow> jsobj \<Rightarrow> (world, jsobj) io" where
  "MemoryAdapter_updateUser uid data =
     (\<lambda>w. case map_of (users w) uid of
        None \<Rightarrow> (Inl (Error ''User not found''), w)
      | Some u \<Rightarrow>
         (io_bind new_Date (\<lambda>updatedAt.
            let updated = AList.update ''updatedAt'' updatedAt (obj_spread u data)
            in io_bind (\<lambda>w. (Inr (), w\<lparr>users := AList.update uid updated (users w)\<rparr>)) (\<lambda>stored.
               if truthy (obj_get data ''email'') \<and> obj_get data ''email'' \<noteq> obj_get u ''email''
               then io_bind (io_of (toLowerCase (obj_get u ''email''))) (\<lambda>old.
                    io_bind (\<lambda>w. (Inr (), w\<lparr>emailIndex := AList.delete old (emailIndex w)\<rparr>))
                      (\<lambda>removed.
                    io_bind (io_of (toLowerCase (obj_get data ''email''))) (\<lambda>new.
                    io_bind (\<lambda>w. (Inr (), w\<lparr>emailIndex := AList.update new uid (emailIndex w)\<rparr>))
                      (\<lambda>indexed. io_return updated))))
               else io_return updated))) w)"

definition MemoryAdapter_deleteUser :: "string \<Rightarrow> (world, unit) io" where
  "MemoryAdapter_deleteUser uid =
     (\<lambda>w. case map_of (users w) uid of
        None \<Rightarrow> (Inr (), w)
      | Some u \<Rightarrow>
         (io_bind (io_of (toLowerCase (obj_get u ''email''))) (\<lambda>key w.
            (Inr (), w\<lparr>emailIndex := AList.delete key (emailIndex w),
                       users := AList.delete uid (users w)\<rparr>))) w)"

definition MemoryAdapter :: "world DatabaseAdapter" where
  "MemoryAdapter =
     \<lparr>findUserByEmail = MemoryAdapter_findUserByEmail,
      findUserById = MemoryAdapter_findUserById,
      createUser = MemoryAdapter_createUser,
      updateUser = MemoryAdapter_updateUser,
      deleteUser = MemoryAdapter_deleteUser\<rparr>"

section \<open>The token library (jsonwebtoken)\<close>

text \<open>
  The strategy's \<^verbatim>\<open>jwt.sign\<close> and \<^verbatim>\<open>jwt.verify\<close> are the functions of the
  \<^verbatim>\<open>jsonwebtoken\<close> package, called with a string secret, an object payload, the default
  algorithm and the options \<^verbatim>\<open>expiresIn\<close>, \<^verbatim>\<open>issuer\<close>, \<^verbatim>\<open>audience\<close>. Their handling
  of the claims is written out below. What they delegate is kept as parameters: the
  \<^verbatim>\<open>jws\<close> package, which serialises the claims as JSON, encodes and signs them and
  later splits, decodes and checks a token string; the clock; the \<^verbatim>\<open>ms\<close> package that
  reads a time span; and the date format of \<^verbatim>\<open>JSON.stringify\<close>.

  Of a token string and a key the library sees one of four things: the string is not a
  signed token it can use with the key (empty, not three parts, an undecodable header, a
  missing signature, a foreign algorithm), for which it throws a \<open>JsonWebTokenError\<close>
  with the message given; decoding throws an exception of its own, which the library
  passes on; the signature does not verify under the key; or the signature verifies and
  the payload is the claims object given. A signed payload that is not a JSON object is
  not modelled, and neither are the options the strategy never passes (clock tolerance,
  algorithms, subject, token id, maximal age).
\<close>

datatype jws_view =
    Malformed string
  | DecodeThrows string
  | BadSignature
  | Verified jsobj

record 'w jws_primitives =
  jws_sign :: "jsobj \<Rightarrow> string \<Rightarrow> string"
  jws_parse :: "string \<Rightarrow> string \<Rightarrow> jws_view"
  date_now :: "'w \<Rightarrow> int"
  ms_seconds :: "string \<Rightarrow> int option"
  toISOString :: "int \<Rightarrow> string"

text \<open>\<^verbatim>\<open>JSON.parse(JSON.stringify(claims))\<close>: undefined properties are dropped and dates
  become strings.\<close>

fun json_property :: "(int \<Rightarrow> string) \<Rightarrow> string \<times> jsval \<Rightarrow> jsobj" where
  "json_property fmt (k, JUndefined) = []"
| "json_property fmt (k, JDate d) = [(k, JStr (fmt d))]"
| "json_property fmt (k, v) = [(k, v)]"

definition json_object :: "(int \<Rightarrow> string) \<Rightarrow> jsobj \<Rightarrow> jsobj" where
  "json_object fmt obj = concat (map (json_property fmt) obj)"

text \<open>
  The signing primitive is correct: a token signed with a key is seen, under that key,
  as verified and carrying the JSON form of the claims that were signed.
\<close>

definition jws_correct :: "'w jws_primitives \<Rightarrow> bool" where
  "jws_correct P =
     (\<forall>claims key. key \<noteq> [] \<longrightarrow>
        jws_parse P (jws_sign P claims key) key = Verified (json_object (toISOString P) claims))"

fun is_number :: "jsval \<Rightarrow> bool" where
  "is_number (JNum n) = True"
| "is_number v = False"

text \<open>\<^verbatim>\<open>validatePayload\<close>: the registered claims \<^verbatim>\<open>iat\<close>, \<^verbatim>\<open>exp\<close>, \<^verbatim>\<open>nbf\<close> of the
  payload must be numbers; the first offending key, in the order of the payload, is
  reported.\<close>

definition validatePayload :: "jsobj \<Rightarrow> exn + unit" where
  \<open>validatePayload payload =
     (case filter (\<lambda>kv. fst kv \<in> set [''iat'', ''exp'', ''nbf''] \<and> \<not> is_number (snd kv)) payload of
        [] \<Rightarrow> Inr ()
      | kv # rest \<Rightarrow> Inl (Error (''"'' @ fst kv @ ''" should be a number of seconds'')))\<close>

text \<open>\<^verbatim>\<open>timespan(time, iat)\<close>: a string is read by \<^verbatim>\<open>ms\<close> (here in whole seconds), a
  number is a number of seconds.\<close>

definition timespan :: "'w jws_primitives \<Rightarrow> jsval \<Rightarrow> int \<Rightarrow> int option" where
  "timespan P time timestamp =
     (case time of
        JStr s \<Rightarrow> (case ms_seconds P s of None \<Rightarrow> None | Some secs \<Rightarrow> Some (timestamp + secs))
      | JNum n \<Rightarrow> Some (timestamp + n)
      | _ \<Rightarrow> None)"

fun valid_expiresIn :: "jsval \<Rightarrow> bool" where
  "valid_expiresIn (JNum n) = True"
| "valid_expiresIn (JStr s) = (s \<noteq> [])"
| "valid_expiresIn v = False"

text \<open>An option of the strategy that is absent reads as \<^verbatim>\<open>undefined\<close>.\<close>

definition option_value :: "jsval option \<Rightarrow> jsval" where
  "option_value v = (case v of None \<Rightarrow> JUndefined | Some x \<Rightarrow> x)"

text \<open>
  The claims \<^verbatim>\<open>jwt.sign\<close> signs, in the order of its checks: the payload is validated;
  an \<^verbatim>\<open>exp\<close> in the payload conflicts with \<^verbatim>\<open>expiresIn\<close>; the options are validated
  (\<^verbatim>\<open>expiresIn\<close> is always a key of the strategy's options); \<^verbatim>\<open>iat\<close> is the payload's,
  when truthy, or the clock's second; \<^verbatim>\<open>exp\<close> is \<^verbatim>\<open>iat\<close> plus the time span; the
  audience and the issuer are added unless the payload has the claim already.
\<close>

definition sign_claims :: "'w jws_primitives \<Rightarrow> jsobj \<Rightarrow> SignOptions \<Rightarrow> int \<Rightarrow> exn + jsobj" where
  \<open>sign_claims P payload opts now =
     (case validatePayload payload of
        Inl e \<Rightarrow> Inl e
      | Inr valid \<Rightarrow>
     if obj_get payload ''exp'' \<noteq> JUndefined \<and> option_value (sign_expiresIn opts) \<noteq> JUndefined
     then Inl (Error ''Bad "options.expiresIn" option the payload already has an "exp" property.'')
     else if \<not> valid_expiresIn (option_value (sign_expiresIn opts))
     then Inl (Error ''"expiresIn" should be a number of seconds or string representing a timespan'')
     else
       let timestamp = (case obj_get payload ''iat'' of
                          JNum n \<Rightarrow> if n \<noteq> 0 then n else now
                        | _ \<Rightarrow> now);
           p1 = AList.update ''iat'' (JNum timestamp) payload
       in case timespan P (option_value (sign_expiresIn opts)) timestamp of
            None \<Rightarrow> Inl (Error (''"expiresIn" should be a number of seconds or string '' @
                                ''representing a timespan eg: "1d", "20h", 60''))
          | Some e \<Rightarrow>
       let p2 = AList.update ''exp'' (JNum e) p1
       in if sign_audience opts \<noteq> None \<and> obj_get p2 ''aud'' \<noteq> JUndefined
          then Inl (Error (''Bad "options.audience" option. '' @
                           ''The payload already has an "aud" property.''))
          else
       let p3 = (case sign_audience opts of
                   Some a \<Rightarrow> AList.update ''aud'' (JStr a) p2 | None \<Rightarrow> p2)
       in if sign_issuer opts \<noteq> None \<and> obj_get p3 ''iss'' \<noteq> JUndefined
          then Inl (Error (''Bad "options.issuer" option. '' @
                           ''The payload already has an "iss" property.''))
          else Inr (case sign_issuer opts of
                      Some i \<Rightarrow> AList.update ''iss'' (JStr i) p3 | None \<Rightarrow> p3))\<close>

definition jsonwebtoken_sign ::
  "'w jws_primitives \<Rightarrow> jsobj \<Rightarrow> string \<Rightarrow> SignOptions \<Rightarrow> ('w, string) io" where
  "jsonwebtoken_sign P payload key opts =
     (\<lambda>w. if key = [] then (Inl (Error ''secretOrPrivateKey must have a value''), w)
          else case sign_claims P payload opts (date_now P w div 1000) of
                 Inl e \<Rightarrow> (Inl e, w)
               | Inr claims \<Rightarrow> (Inr (jws_sign P claims key), w))"

text \<open>
  The checks of \<^verbatim>\<open>jwt.verify\<close> on the claims of a token whose signature verified, in
  the library's order: not before, expiration, audience, issuer. An option that is
  absent or the empty string is not checked. The error of a token that is not yet
  active is of a subclass of \<open>JsonWebTokenError\<close>.
\<close>

definition not_yet_active :: "jsobj \<Rightarrow> int \<Rightarrow> bool" where
  "not_yet_active claims now = (case obj_get claims ''nbf'' of JNum n \<Rightarrow> now < n | _ \<Rightarrow> False)"

definition expired :: "jsobj \<Rightarrow> int \<Rightarrow> bool" where
  "expired claims now = (case obj_get claims ''exp'' of JNum e \<Rightarrow> e \<le> now | _ \<Rightarrow> False)"

definition expected :: "string option \<Rightarrow> string option" where
  "expected opt = (case opt of Some s \<Rightarrow> if s \<noteq> [] then Some s else None | None \<Rightarrow> None)"

definition audience_error :: "jsobj \<Rightarrow> VerifyOptions \<Rightarrow> exn option" where
  "audience_error claims opts =
     (case expected (verify_audience opts) of
        Some a \<Rightarrow> if obj_get claims ''aud'' \<noteq> JStr a
                  then Some (JsonWebTokenError (''jwt audience invalid. expected: '' @ a))
                  else None
      | None \<Rightarrow> None)"

definition issuer_error :: "jsobj \<Rightarrow> VerifyOptions \<Rightarrow> exn option" where
  "issuer_error claims opts =
     (case expected (verify_issuer opts) of
        Some i \<Rightarrow> if obj_get claims ''iss'' \<noteq> JStr i
                  then Some (JsonWebTokenError (''jwt issuer invalid. expected: '' @ i))
                  else None
      | None \<Rightarrow> None)"

definition verify_claims :: "jsobj \<Rightarrow> VerifyOptions \<Rightarrow> int \<Rightarrow> exn + jsobj" where
  "verify_claims claims opts now =
     (if obj_get claims ''nbf'' \<noteq> JUndefined \<and> \<not> is_number (obj_get claims ''nbf'')
      then Inl (JsonWebTokenError ''invalid nbf value'')
      else if not_yet_active claims now then Inl (JsonWebTokenError ''jwt not active'')
      else if obj_get claims ''exp'' \<noteq> JUndefined \<and> \<not> is_number (obj_get claims ''exp'')
      then Inl (JsonWebTokenError ''invalid exp value'')
      else if expired claims now then Inl (TokenExpiredError ''jwt expired'')
      else case audience_error claims opts of
             Some e \<Rightarrow> Inl e
           | None \<Rightarrow> (case issuer_error claims opts of Some e \<Rightarrow> Inl e | None \<Rightarrow> Inr claims))"

definition jsonwebtoken_verify ::
  "'w jws_primitives \<Rightarrow> string \<Rightarrow> string \<Rightarrow> VerifyOptions \<Rightarrow> ('w, jsobj) io" where
  "jsonwebtoken_verify P tok key opts =
     (\<lambda>w. case jws_parse P tok key of
             Malformed m \<Rightarrow> (Inl (JsonWebTokenError m), w)
           | DecodeThrows m \<Rightarrow> (Inl (Error m), w)
           | BadSignature \<Rightarrow> (Inl (JsonWebTokenError ''invalid signature''), w)
           | Verified claims \<Rightarrow> (verify_claims claims opts (date_now P w div 1000), w))"

section \<open>A reference instance of the library parameters\<close>

text \<open>
  To run the engine on concrete inputs the parameters are instantiated with idealised
  libraries: hashing tags the password, and the token library keeps the table of the
  tokens it has signed, with the secret they were signed with, and checks a token against
  that table, the clock and the expected issuer and audience. The email pattern asks for
  an \<^verbatim>\<open>@\<close>.
\<close>

definition ref_bcrypt_hash :: "jsval \<Rightarrow> nat \<Rightarrow> (world, string) io" where
  "ref_bcrypt_hash p rounds =
     (case p of
        JStr s \<Rightarrow> io_return (''$2b$'' @ s)
      | _ \<Rightarrow> io_throw (Error ''data must be a string''))"

definition ref_bcrypt_compare :: "jsval \<Rightarrow> jsval \<Rightarrow> (world, bool) io" where
  "ref_bcrypt_compare p h =
     (case p of
        JStr s \<Rightarrow> (case h of
                     JStr t \<Rightarrow> io_return (t = ''$2b$'' @ s)
                   | _ \<Rightarrow> io_throw (Error ''hash must be a string''))
      | _ \<Rightarrow> io_throw (Error ''data must be a string''))"

definition ref_ttl :: "jsval option \<Rightarrow> int option" where
  "ref_ttl e =
     (case e of
        Some (JNum n) \<Rightarrow> Some n
      | Some (JStr s) \<Rightarrow> if s = ''7d'' then Some 604800 else None
      | _ \<Rightarrow> None)"

definition ref_jwt_sign :: "jsobj \<Rightarrow> string \<Rightarrow> SignOptions \<Rightarrow> (world, string) io" where
  "ref_jwt_sign payload sec opts =
     (\<lambda>w. let tok = ''jwt-'' @ replicate (length (issued w)) (CHR ''x'');
               c0 = (if ''iat'' \<in> set (obj_keys payload) then payload
                     else AList.update ''iat'' (JNum (clock w)) payload);
               iat = (case obj_get c0 ''iat'' of JNum n \<Rightarrow> n | _ \<Rightarrow> clock w);
               c1 = (case ref_ttl (sign_expiresIn opts) of
                       Some t \<Rightarrow> AList.update ''exp'' (JNum (iat + t)) c0
                     | None \<Rightarrow> c0);
               c2 = (case sign_issuer opts of
                       Some i \<Rightarrow> AList.update ''iss'' (JStr i) c1 | None \<Rightarrow> c1);
               c3 = (case sign_audience opts of
                       Some a \<Rightarrow> AList.update ''aud'' (JStr a) c2 | None \<Rightarrow> c2)
           in (Inr tok, w\<lparr>issued := issued w @ [(tok, sec, c3)]\<rparr>))"

definition ref_jwt_verify :: "string \<Rightarrow> string \<Rightarrow> VerifyOptions \<Rightarrow> (world, jsobj) io" where
  "ref_jwt_verify tok sec opts =
     (\<lambda>w. case map_of (issued w) tok of
        None \<Rightarrow> (Inl (JsonWebTokenError ''jwt malformed''), w)
      | Some entry \<Rightarrow>
          if fst entry \<noteq> sec then (Inl (JsonWebTokenError ''invalid signature''), w)
          else if (case obj_get (snd entry) ''exp'' of JNum e \<Rightarrow> e \<le> clock w | _ \<Rightarrow> False)
          then (Inl (TokenExpiredError ''jwt expired''), w)
          else if (case verify_issuer opts of
                     Some i \<Rightarrow> obj_get (snd entry) ''iss'' \<noteq> JStr i | None \<Rightarrow> False)
          then (Inl (JsonWebTokenError ''jwt issuer invalid''), w)
          else if (case verify_audience opts of
                     Some a \<Rightarrow> obj_get (snd entry) ''aud'' \<noteq> JStr a | None \<Rightarrow> False)
          then (Inl (JsonWebTokenError ''jwt audience invalid''), w)
          else (Inr (snd entry), w))"

definition ref_libs :: "world libs" where
  "ref_libs =
     \<lparr>bcrypt_hash = ref_bcrypt_hash,
      bcrypt_compare = ref_bcrypt_compare,
      jwt_sign = ref_jwt_sign,
      jwt_verify = ref_jwt_verify,
      email_regex = (\<lambda>s. CHR ''@'' \<in> set s)\<rparr>"

definition ref_jwt_config :: JWTStrategyConfig where
  "ref_jwt_config = \<lparr>secret = ''s3cret'', expiresIn = None, issuer = None, audience = None\<rparr>"

text \<open>\<^verbatim>\<open>quickAuth({ secret: 's3cret' })\<close>: the in-memory adapter and the default strategy.\<close>

definition ref_config :: "world AuthConfig" where
  "ref_config =
     \<lparr>adapter = MemoryAdapter,
      strategy = JWTStrategy ref_libs ref_jwt_config,
      session = None,
      callbacks = None,
      validation = None\<rparr>"

definition world0 :: world where
  "world0 =
     \<lparr>users = [], emailIndex = [],
      uuid_supply = (\<lambda>n. ''uuid-'' @ replicate n (CHR ''i'')),
      uuid_drawn = 0, clock = 1000, issued = []\<rparr>"

definition alice :: jsobj where
  "alice = [(''email'', JStr ''a@b.com''), (''password'', JStr ''secret1'')]"

definition ref_engine :: "world AuthEngine" where
  "ref_engine = new_AuthEngine ref_config"

text \<open>The world after \<open>alice\<close> has registered in \<open>world0\<close>.\<close>

definition world1 :: world where
  "world1 =
     world0\<lparr>users :=
       [(''uuid-'',
         [(''id'', JStr ''uuid-''), (''email'', JStr ''a@b.com''),
          (''password'', JStr ''$2b$secret1''), (''createdAt'', JDate 1000),
          (''updatedAt'', JDate 1000)])],
       emailIndex := [(''a@b.com'', ''uuid-'')],
       uuid_drawn := 1,
       issued :=
         [(''jwt-'', ''s3cret'',
           [(''sub'', JStr ''uuid-''), (''email'', JStr ''a@b.com''),
            (''createdAt'', JDate 1000), (''updatedAt'', JDate 1000),
            (''iat'', JNum 1000), (''exp'', JNum 605800)])]\<rparr>"

text \<open>The same world with a second account that has no password hash.\<close>

definition world2 :: world where
  "world2 =
     world1\<lparr>users := users world1 @
       [(''uuid-i'', [(''id'', JStr ''uuid-i''), (''email'', JStr ''c@d.org'')])],
       emailIndex := emailIndex world1 @ [(''c@d.org'', ''uuid-i'')],
       uuid_drawn := 2\<rparr>"

text \<open>A world whose token table holds a token signed without a subject.\<close>

definition world_nosub :: world where
  "world_nosub =
     world0\<lparr>issued := [(''jwt-'', ''s3cret'',
                           [(''email'', JStr ''a@b.com''), (''iat'', JNum 1000)])]\<rparr>"

definition ref_strategy_config :: JWTStrategyConfig where
  "ref_strategy_config = new_JWTStrategyConfig ref_jwt_config"

text \<open>A custom validator that asks for a name, and an engine configured with it.\<close>

definition name_required :: "jsobj \<Rightarrow> exn + CustomResult" where
  "name_required data =
     (if truthy (obj_get data ''name'')
      then Inr \<lparr>cv_success = True, cv_errors = None\<rparr>
      else Inr \<lparr>cv_success = False, cv_errors = Some [(''name'', ''Name is required'')]\<rparr>)"

definition custom_validation :: ValidationConfig where
  "custom_validation =
     \<lparr>email = None,
      password = Some (z_string_min 0 ''unused''),
      fields' = None,
      customValidator = Some name_required\<rparr>"

definition custom_engine :: "world AuthEngine" where
  "custom_engine = new_AuthEngine (ref_config\<lparr>validation := Some custom_validation\<rparr>)"

definition bad_input :: jsobj where
  "bad_input = [(''email'', JStr ''not-an-email''), (''password'', JStr [])]"

text \<open>
  The spec's words for the login schema: the email is a syntactically valid email and the
  password is a non-empty string.
\<close>

definition spec_login_valid :: "'w libs \<Rightarrow> jsobj \<Rightarrow> bool" where
  "spec_login_valid L credentials =
     ((case obj_get credentials ''email'' of JStr e \<Rightarrow> email_regex L e | _ \<Rightarrow> False) \<and>
      (case obj_get credentials ''password'' of JStr p \<Rightarrow> p \<noteq> [] | _ \<Rightarrow> False))"

text \<open>The record of \<open>alice\<close> as the adapter stores it, and the world once it is stored.\<close>

definition alice_stored :: jsobj where
  "alice_stored =
     [(''id'', JStr ''uuid-''), (''email'', JStr ''a@b.com''),
      (''password'', JStr ''$2b$secret1''), (''createdAt'', JDate 1000),
      (''updatedAt'', JDate 1000)]"

definition world_created :: world where
  "world_created =
     world0\<lparr>users := [(''uuid-'', alice_stored)],
            emailIndex := [(''a@b.com'', ''uuid-'')],
            uuid_drawn := 1\<rparr>"

text \<open>Two \<^verbatim>\<open>onRegister\<close> callbacks that throw, and the engine configured with one.\<close>

definition failing_onRegister :: "jsobj \<Rightarrow> (world, unit) io" where
  "failing_onRegister u = io_throw (Error ''mail server down'')"

definition zod_onRegister :: "jsobj \<Rightarrow> (world, unit) io" where
  "zod_onRegister u =
     io_throw (ZodError [\<lparr>path = [''profile''], message = ''Profile is incomplete''\<rparr>])"

definition engine_with_onRegister :: "(jsobj \<Rightarrow> (world, unit) io) \<Rightarrow> world AuthEngine" where
  "engine_with_onRegister cb =
     new_AuthEngine
       (ref_config\<lparr>callbacks := Some \<lparr>onLogin = None, onRegister = Some cb, onLogout = None\<rparr>\<rparr>)"

text \<open>A user whose id is empty, and a user that carries an attribute named \<^verbatim>\<open>sub\<close>.\<close>

definition user_empty_id :: jsobj where
  "user_empty_id = [(''id'', JStr []), (''email'', JStr ''a@b.com'')]"

definition user_with_sub :: jsobj where
  "user_with_sub =
     [(''id'', JStr ''uuid-i''), (''email'', JStr ''m@b.com''), (''sub'', JStr ''uuid-'')]"

text \<open>The custom validator, when configured, accepts the input.\<close>

definition customValidator_passes :: "'w AuthEngine \<Rightarrow> jsobj \<Rightarrow> bool" where
  "customValidator_passes this data =
     (case customValidator (this_validationConfig this) of
        None \<Rightarrow> True
      | Some cv \<Rightarrow> (case cv data of Inl e \<Rightarrow> False | Inr r \<Rightarrow> cv_success r))"

text \<open>A result carries no user, or a user without a password attribute.\<close>

definition sanitized :: "AuthResult \<Rightarrow> bool" where
  "sanitized r = (case user r of None \<Rightarrow> True | Some u \<Rightarrow> ''password'' \<notin> set (obj_keys u))"

text \<open>
  An instance of the signing primitive, to run the library on concrete tokens: the token
  spells out the key and the JSON form of the claims, each string preceded by its length.
\<close>

definition enc_nat :: "nat \<Rightarrow> string" where
  "enc_nat n = replicate n (CHR ''1'') @ ''0''"

fun dec_nat :: "string \<Rightarrow> nat \<times> string" where
  "dec_nat [] = (0, [])"
| "dec_nat (c # cs) =
     (if c = CHR ''1'' then (case dec_nat cs of (n, r) \<Rightarrow> (Suc n, r)) else (0, cs))"

definition enc_str :: "string \<Rightarrow> string" where
  "enc_str s = enc_nat (length s) @ s"

definition dec_str :: "string \<Rightarrow> string \<times> string" where
  "dec_str x = (case dec_nat x of (n, r) \<Rightarrow> (take n r, drop n r))"

definition enc_int :: "int \<Rightarrow> string" where
  "enc_int i = (if i < 0 then ''-'' else ''+'') @ enc_nat (nat \<bar>i\<bar>)"

fun dec_int :: "string \<Rightarrow> int \<times> string" where
  "dec_int [] = (0, [])"
| "dec_int (c # cs) =
     (case dec_nat cs of (n, r) \<Rightarrow> (if c = CHR ''-'' then - int n else int n, r))"

fun enc_val :: "jsval \<Rightarrow> string" where
  "enc_val JUndefined = ''u''"
| "enc_val JNull = ''n''"
| "enc_val (JBool b) = (if b then ''t'' else ''f'')"
| "enc_val (JNum i) = ''i'' @ enc_int i"
| "enc_val (JStr s) = ''s'' @ enc_str s"
| "enc_val (JDate d) = ''d'' @ enc_int d"

fun dec_val :: "string \<Rightarrow> jsval \<times> string" where
  "dec_val [] = (JUndefined, [])"
| "dec_val (c # cs) =
     (if c = CHR ''n'' then (JNull, cs)
      else if c = CHR ''t'' then (JBool True, cs)
      else if c = CHR ''f'' then (JBool False, cs)
      else if c = CHR ''i'' then (case dec_int cs of (i, r) \<Rightarrow> (JNum i, r))
      else if c = CHR ''s'' then (case dec_str cs of (s, r) \<Rightarrow> (JStr s, r))
      else if c = CHR ''d'' then (case dec_int cs of (d, r) \<Rightarrow> (JDate d, r))
      else (JUndefined, cs))"

definition enc_obj :: "jsobj \<Rightarrow> string" where
  "enc_obj obj = enc_nat (length obj) @ concat (map (\<lambda>kv. enc_str (fst kv) @ enc_val (snd kv)) obj)"

fun dec_props :: "nat \<Rightarrow> string \<Rightarrow> jsobj \<times> string" where
  "dec_props 0 x = ([], x)"
| "dec_props (Suc n) x =
     (case dec_str x of (k, r) \<Rightarrow>
      case dec_val r of (v, r') \<Rightarrow>
      case dec_props n r' of (rest, r'') \<Rightarrow> ((k, v) # rest, r''))"

definition dec_obj :: "string \<Rightarrow> jsobj" where
  "dec_obj x = (case dec_nat x of (n, r) \<Rightarrow> fst (dec_props n r))"

definition plain_date :: "int \<Rightarrow> string" where
  "plain_date d = ''1970-01-01T00:00:01.000Z''"

definition plain_sign :: "jsobj \<Rightarrow> string \<Rightarrow> string" where
  "plain_sign claims key = ''jws.'' @ enc_str key @ enc_obj (json_object plain_date claims)"

definition plain_parse :: "string \<Rightarrow> string \<Rightarrow> jws_view" where
  "plain_parse tok key =
     (if key = [] then Malformed ''secret or public key must be provided''
      else if take 4 tok = ''jws.''
      then (case dec_str (drop 4 tok) of
              (k, r) \<Rightarrow> if k = key then Verified (dec_obj r) else BadSignature)
      else if tok = ''e30.bm90IGpzb24.sig''
      then DecodeThrows ''Unexpected token in JSON at position 0''
      else Malformed ''jwt malformed'')"

definition plain_jws :: "world jws_primitives" where
  "plain_jws =
     \<lparr>jws_sign = plain_sign,
      jws_parse = plain_parse,
      date_now = clock,
      ms_seconds = (\<lambda>s. if s = ''7d'' then Some 604800 else None),
      toISOString = plain_date\<rparr>"

definition plain_libs :: "world libs" where
  "plain_libs =
     ref_libs\<lparr>jwt_sign := jsonwebtoken_sign plain_jws,
              jwt_verify := jsonwebtoken_verify plain_jws\<rparr>"

text \<open>The claims the library signs for \<open>alice_stored\<close> at second 1, for seven days.\<close>

definition alice_claims :: jsobj where
  "alice_claims =
     [(''sub'', JStr ''uuid-''), (''email'', JStr ''a@b.com''),
      (''createdAt'', JDate 1000), (''updatedAt'', JDate 1000),
      (''iat'', JNum 1), (''exp'', JNum 604801)]"

text \<open>A user that carries an attribute named \<^verbatim>\<open>nbf\<close>, a second in the year 2100.\<close>

definition user_with_nbf :: jsobj where
  "user_with_nbf =
     [(''id'', JStr ''uuid-''), (''email'', JStr ''a@b.com''), (''nbf'', JNum 4102444800)]"

text \<open>The same strategy configuration, expecting an issuer.\<close>

definition issuer_config :: JWTStrategyConfig where
  "issuer_config = ref_strategy_config\<lparr>issuer := Some ''acme''\<rparr>"

text \<open>The world of \<open>world1\<close> nine days later.\<close>

definition world_later :: world where
  "world_later = world1\<lparr>clock := 777600000\<rparr>"

text \<open>
  The conditions on the claims of a token, in the spec's words: the token is active (no
  not-before time, or one that has passed), it has not expired (no expiration time, or
  one in the future), the audience or the issuer the configuration expects is not the
  token's.
\<close>

definition active :: "jsobj \<Rightarrow> int \<Rightarrow> bool" where
  "active claims now =
     (case obj_get claims ''nbf'' of JUndefined \<Rightarrow> True | JNum n \<Rightarrow> n \<le> now | _ \<Rightarrow> False)"

definition unexpired :: "jsobj \<Rightarrow> int \<Rightarrow> bool" where
  "unexpired claims now =
     (case obj_get claims ''exp'' of JUndefined \<Rightarrow> True | JNum e \<Rightarrow> now < e | _ \<Rightarrow> False)"

definition audience_mismatch :: "jsobj \<Rightarrow> JWTStrategyConfig \<Rightarrow> bool" where
  "audience_mismatch claims config =
     (case audience config of
        Some a \<Rightarrow> a \<noteq> [] \<and> obj_get claims ''aud'' \<noteq> JStr a
      | None \<Rightarrow> False)"

definition issuer_mismatch :: "jsobj \<Rightarrow> JWTStrategyConfig \<Rightarrow> bool" where
  "issuer_mismatch claims config =
     (case issuer config of
        Some i \<Rightarrow> i \<noteq> [] \<and> obj_get claims ''iss'' \<noteq> JStr i
      | None \<Rightarrow> False)"

text \<open>
  The spec's words for what the login schema answers: a field that is not a string gets
  the library's type message, an email that is not an email "Invalid email format", an
  empty password "Password is required".
\<close>

definition spec_login_errors :: "'w libs \<Rightarrow> jsobj \<Rightarrow> (string \<times> string) list" where
  "spec_login_errors L credentials =
     (case obj_get credentials ''email'' of
        JStr e \<Rightarrow> if email_regex L e then [] else [(''email'', ''Invalid email format'')]
      | v \<Rightarrow> [(''email'', message (invalid_type_issue ''string'' v))]) @
     (case obj_get credentials ''password'' of
        JStr p \<Rightarrow> if p \<noteq> [] then [] else [(''password'', ''Password is required'')]
      | v \<Rightarrow> [(''password'', message (invalid_type_issue ''string'' v))])"



section \<open>Properties\<close>

lemmas io_defs = Let_def io_bind_def io_catch_def io_return_def io_of_def io_throw_def

lemmas engine_defs = register_def register_validated_def login_def login_validated_def
  new_AuthEngine_def
  buildRegisterSchema_def defaultLoginSchema_def zobject_parse_def field_issues_def
  field_value_def field_ok_def z_string_email_def z_string_min_def obj_get_def obj_keys_def obj_spread_def
  createUserData_def run_callback_def sanitizeUser_def SALT_ROUNDS_def userExistsResult_def
  invalidCredentialsResult_def zodErrorResult_def formatZodError_def firstError_def
  invalid_type_issue_def getUser_def engine_updateUser_def verifyToken_def

lemmas jwt_defs = JWTStrategy_def JWTStrategy_verify_def JWTStrategy_generateToken_def
  new_JWTStrategyConfig_def token_payload_def sign_options_def JWTStrategy_authenticate_def

lemmas ref_defs = ref_libs_def ref_config_def ref_jwt_config_def ref_bcrypt_hash_def
  ref_bcrypt_compare_def ref_ttl_def ref_jwt_sign_def ref_jwt_verify_def world0_def alice_def
  MemoryAdapter_def MemoryAdapter_findUserByEmail_def MemoryAdapter_findUserById_def
  MemoryAdapter_createUser_def MemoryAdapter_updateUser_def MemoryAdapter_deleteUser_def
  randomUUID_def new_Date_def toLowerCase_def lower_char_def ref_engine_def world1_def
  world2_def world_nosub_def ref_strategy_config_def
  name_required_def custom_validation_def custom_engine_def bad_input_def alice_stored_def
  world_created_def failing_onRegister_def zod_onRegister_def engine_with_onRegister_def
  user_empty_id_def user_with_sub_def

subsection \<open>The reference run\<close>

lemma register_alice:
  "register ref_libs ref_engine alice world0 =
     (Inr \<lparr>success = True,
           user = Some [(''id'', JStr ''uuid-''), (''email'', JStr ''a@b.com''),
                        (''createdAt'', JDate 1000), (''updatedAt'', JDate 1000)],
           token = Some ''jwt-'', error = None, errors = None\<rparr>, world1)"
  by (simp add: io_defs engine_defs jwt_defs ref_defs)

subsection \<open>Token verification failures\<close>



subsection \<open>Login\<close>

text \<open>
  C1: a login whose credentials pass validation and whose lookup returns no user, a user
  without a (truthy) password hash, or a user whose hash the comparison rejects, returns
  in all three cases the same result: \<^verbatim>\<open>{success:false, error:"Invalid credentials",
  errors:{general:"Invalid email or password"}}\<close>.
\<close>

theorem login_invalid_credentials:
  assumes valid: "zobject_parse (defaultLoginSchema L) False credentials = Inr validated"
    and lookup: "findUserByEmail (this_adapter this) (obj_get validated ''email'') w = (Inr found, w1)"
    and cause: "found = None
              \<or> (\<exists>u. found = Some u \<and> \<not> truthy (obj_get u ''password''))
              \<or> (\<exists>u. found = Some u \<and> truthy (obj_get u ''password'') \<and>
                   fst (bcrypt_compare L (obj_get validated ''password'') (obj_get u ''password'') w1)
                     = Inr False)"
  shows "fst (login L this credentials w) =
           Inr \<lparr>success = False, user = None, token = None,
                error = Some ''Invalid credentials'',
                errors = Some [(''general'', ''Invalid email or password'')]\<rparr>"
  using cause
proof (elim disjE exE conjE)
  assume "found = None"
  with valid lookup show ?thesis
    by (simp add: login_def login_validated_def io_defs invalidCredentialsResult_def)
next
  fix u
  assume "found = Some u" and "\<not> truthy (obj_get u ''password'')"
  with valid lookup show ?thesis
    by (simp add: login_def login_validated_def io_defs invalidCredentialsResult_def)
next
  fix u
  assume found: "found = Some u" and hash: "truthy (obj_get u ''password'')"
    and "fst (bcrypt_compare L (obj_get validated ''password'') (obj_get u ''password'') w1)
           = Inr False"
  then obtain w2 where
    "bcrypt_compare L (obj_get validated ''password'') (obj_get u ''password'') w1 = (Inr False, w2)"
    by (cases "bcrypt_compare L (obj_get validated ''password'') (obj_get u ''password'') w1") simp
  with valid lookup found hash show ?thesis
    by (simp add: login_def login_validated_def io_defs invalidCredentialsResult_def)
qed

theorem login_invalid_credentials_witness:
  "fst (login ref_libs ref_engine [(''email'', JStr ''nobody@b.com''), (''password'', JStr ''secret1'')] world2)
     = Inr \<lparr>success = False, user = None, token = None,
            error = Some ''Invalid credentials'',
            errors = Some [(''general'', ''Invalid email or password'')]\<rparr>
   \<and> fst (login ref_libs ref_engine [(''email'', JStr ''c@d.org''), (''password'', JStr ''secret1'')] world2)
     = Inr \<lparr>success = False, user = None, token = None,
            error = Some ''Invalid credentials'',
            errors = Some [(''general'', ''Invalid email or password'')]\<rparr>
   \<and> fst (login ref_libs ref_engine [(''email'', JStr ''a@b.com''), (''password'', JStr ''wrong'')] world2)
     = Inr \<lparr>success = False, user = None, token = None,
            error = Some ''Invalid credentials'',
            errors = Some [(''general'', ''Invalid email or password'')]\<rparr>"
proof -
  have valid: "zobject_parse (defaultLoginSchema ref_libs) False [(''email'', JStr e), (''password'', JStr ''secret1'')]
      = Inr [(''email'', JStr e), (''password'', JStr ''secret1'')]" if "CHR ''@'' \<in> set e" for e
    using that by (simp add: engine_defs ref_libs_def)
  have valid': "zobject_parse (defaultLoginSchema ref_libs) False [(''email'', JStr ''a@b.com''), (''password'', JStr ''wrong'')]
      = Inr [(''email'', JStr ''a@b.com''), (''password'', JStr ''wrong'')]"
    by (simp add: engine_defs ref_libs_def)
  have absent: "findUserByEmail (this_adapter ref_engine)
      (obj_get [(''email'', JStr ''nobody@b.com''), (''password'', JStr ''secret1'')] ''email'') world2
      = (Inr None, world2)"
    by (simp add: io_defs engine_defs ref_defs)
  have nohash: "findUserByEmail (this_adapter ref_engine)
      (obj_get [(''email'', JStr ''c@d.org''), (''password'', JStr ''secret1'')] ''email'') world2
      = (Inr (Some [(''id'', JStr ''uuid-i''), (''email'', JStr ''c@d.org'')]), world2)"
    by (simp add: io_defs engine_defs ref_defs)
  have stored: "findUserByEmail (this_adapter ref_engine)
      (obj_get [(''email'', JStr ''a@b.com''), (''password'', JStr ''wrong'')] ''email'') world2
      = (Inr (Some [(''id'', JStr ''uuid-''), (''email'', JStr ''a@b.com''),
          (''password'', JStr ''$2b$secret1''), (''createdAt'', JDate 1000),
          (''updatedAt'', JDate 1000)]), world2)"
    by (simp add: io_defs engine_defs ref_defs)
  have mismatch: "fst (bcrypt_compare ref_libs
      (obj_get [(''email'', JStr ''a@b.com''), (''password'', JStr ''wrong'')] ''password'')
      (obj_get [(''id'', JStr ''uuid-''), (''email'', JStr ''a@b.com''),
          (''password'', JStr ''$2b$secret1''), (''createdAt'', JDate 1000),
          (''updatedAt'', JDate 1000)] ''password'') world2) = Inr False"
    by (simp add: io_defs ref_defs obj_get_def)
  show ?thesis
    using login_invalid_credentials [OF valid absent]
      login_invalid_credentials [OF valid nohash]
      login_invalid_credentials [OF valid' stored]
      mismatch
    by (simp add: obj_get_def)
qed

subsection \<open>The login schema\<close>

lemma email_rule: "(\<exists>v. z_string_email r m x = Inr v) = (case x of JStr e \<Rightarrow> r e | _ \<Rightarrow> False)"
  by (cases x) (simp_all add: z_string_email_def)

lemma min_rule: "(\<exists>v. z_string_min (Suc 0) m x = Inr v) = (case x of JStr p \<Rightarrow> p \<noteq> [] | _ \<Rightarrow> False)"
  by (cases x) (simp_all add: z_string_min_def)

lemma field_ok_iff: "field_ok c (k, z) = (\<exists>v. z (obj_get c k) = Inr v)"
  by (cases "z (obj_get c k)") (simp_all add: field_ok_def)

lemma email_field_issues:
  "field_issues c (''email'', z_string_email r ''Invalid email format'') =
     (case obj_get c ''email'' of
        JStr e \<Rightarrow> if r e then [] else [\<lparr>path = [''email''], message = ''Invalid email format''\<rparr>]
      | v \<Rightarrow> [\<lparr>path = [''email''], message = message (invalid_type_issue ''string'' v)\<rparr>])"
  by (cases "obj_get c ''email''")
    (simp_all add: field_issues_def z_string_email_def invalid_type_issue_def)

lemma password_field_issues:
  "field_issues c (''password'', z_string_min (Suc 0) ''Password is required'') =
     (case obj_get c ''password'' of
        JStr p \<Rightarrow> if p \<noteq> [] then []
                  else [\<lparr>path = [''password''], message = ''Password is required''\<rparr>]
      | v \<Rightarrow> [\<lparr>path = [''password''], message = message (invalid_type_issue ''string'' v)\<rparr>])"
  by (cases "obj_get c ''password''")
    (simp_all add: field_issues_def z_string_min_def invalid_type_issue_def)

lemma format_login_issues:
  "formatZodError (concat (map (field_issues c) (defaultLoginSchema L))) = spec_login_errors L c"
  by (cases "obj_get c ''email''"; cases "obj_get c ''password''")
    (simp_all add: defaultLoginSchema_def email_field_issues password_field_issues
       formatZodError_def spec_login_errors_def invalid_type_issue_def)

lemma spec_login_errors_first:
  "\<not> spec_login_valid L c \<Longrightarrow>
   spec_login_errors L c \<noteq> [] \<and> firstError (spec_login_errors L c) = snd (hd (spec_login_errors L c))"
  by (cases "obj_get c ''email''"; cases "obj_get c ''password''")
    (simp_all add: spec_login_errors_def spec_login_valid_def firstError_def invalid_type_issue_def)

lemma login_schema_parsed:
  assumes "spec_login_valid L c"
  shows "zobject_parse (defaultLoginSchema L) False c =
           Inr [(''email'', obj_get c ''email''), (''password'', obj_get c ''password'')]"
  using assms
  by (cases "obj_get c ''email''"; cases "obj_get c ''password''")
    (simp_all add: spec_login_valid_def zobject_parse_def defaultLoginSchema_def field_ok_def
       field_value_def z_string_email_def z_string_min_def)

lemma login_schema_failed:
  assumes "\<not> spec_login_valid L c"
  shows "zobject_parse (defaultLoginSchema L) False c =
           Inl (ZodError (concat (map (field_issues c) (defaultLoginSchema L))))"
  using assms
  by (simp add: zobject_parse_def defaultLoginSchema_def field_ok_iff email_rule min_rule
        spec_login_valid_def)

lemma login_validated_config:
  "login_validated L (new_AuthEngine (cfg\<lparr>validation := v\<rparr>)) = login_validated L (new_AuthEngine cfg)"
  by (rule ext)
    (simp add: login_validated_def new_AuthEngine_def
       cong del: if_weak_cong option.case_cong_weak)

text \<open>
  C7: login validates against a fixed schema, for every engine configuration. Whatever
  validation overrides the engine was constructed with, login behaves as without them.
  Credentials whose email is a syntactically valid email and whose password is a
  non-empty string pass: login goes on to the lookup with exactly these two fields.
  All other credentials are answered, before storage is consulted, with the failure that
  carries the schema's messages for the offending fields.
\<close>

theorem login_schema_fixed:
  "login L (new_AuthEngine (cfg\<lparr>validation := v\<rparr>)) c w = login L (new_AuthEngine cfg) c w
   \<and> (spec_login_valid L c \<longrightarrow>
        login L (new_AuthEngine (cfg\<lparr>validation := v\<rparr>)) c w =
          io_catch (login_validated L (new_AuthEngine cfg)
                      [(''email'', obj_get c ''email''), (''password'', obj_get c ''password'')])
                   (\<lambda>e. io_return (login_catch e)) w)
   \<and> (\<not> spec_login_valid L c \<longrightarrow>
        spec_login_errors L c \<noteq> [] \<and>
        login L (new_AuthEngine (cfg\<lparr>validation := v\<rparr>)) c w =
          (Inr \<lparr>success = False, user = None, token = None,
                error = Some (snd (hd (spec_login_errors L c))),
                errors = Some (spec_login_errors L c)\<rparr>, w))"
proof (intro conjI impI)
  show "login L (new_AuthEngine (cfg\<lparr>validation := v\<rparr>)) c w = login L (new_AuthEngine cfg) c w"
    by (simp add: login_def login_validated_config)
next
  assume "spec_login_valid L c"
  then show "login L (new_AuthEngine (cfg\<lparr>validation := v\<rparr>)) c w =
          io_catch (login_validated L (new_AuthEngine cfg)
                      [(''email'', obj_get c ''email''), (''password'', obj_get c ''password'')])
                   (\<lambda>e. io_return (login_catch e)) w"
    by (simp add: login_def login_validated_config login_schema_parsed io_defs)
next
  assume invalid: "\<not> spec_login_valid L c"
  from spec_login_errors_first [OF invalid]
  show "spec_login_errors L c \<noteq> []" by (rule conjunct1)
  from spec_login_errors_first [OF invalid]
  show "login L (new_AuthEngine (cfg\<lparr>validation := v\<rparr>)) c w =
          (Inr \<lparr>success = False, user = None, token = None,
                error = Some (snd (hd (spec_login_errors L c))),
                errors = Some (spec_login_errors L c)\<rparr>, w)"
    by (simp add: login_def login_schema_failed [OF invalid] io_defs zodErrorResult_def
          format_login_issues)
qed

theorem login_schema_fixed_witness:
  "spec_login_valid ref_libs [(''email'', JStr ''a@b.com''), (''password'', JStr ''abc'')]
   \<and> zobject_parse (buildRegisterSchema ref_libs ref_engine) True
        [(''email'', JStr ''a@b.com''), (''password'', JStr ''abc'')] =
       Inl (ZodError [\<lparr>path = [''password''],
                       message = ''Password must be at least 6 characters''\<rparr>])
   \<and> fst (login ref_libs ref_engine
            [(''email'', JStr ''a@b.com''), (''password'', JStr ''abc'')] world1) =
       Inr \<lparr>success = False, user = None, token = None,
            error = Some ''Invalid credentials'',
            errors = Some [(''general'', ''Invalid email or password'')]\<rparr>
   \<and> \<not> spec_login_valid ref_libs [(''email'', JStr ''a@b.com''), (''password'', JStr [])]
   \<and> zobject_parse (buildRegisterSchema ref_libs custom_engine) True
        [(''email'', JStr ''a@b.com''), (''password'', JStr [])] =
       Inr [(''email'', JStr ''a@b.com''), (''password'', JStr [])]
   \<and> login ref_libs custom_engine [(''email'', JStr ''a@b.com''), (''password'', JStr [])] world1 =
       (Inr \<lparr>success = False, user = None, token = None,
             error = Some ''Password is required'',
             errors = Some [(''password'', ''Password is required'')]\<rparr>, world1)"
proof -
  let ?short = "[(''email'', JStr ''a@b.com''), (''password'', JStr ''abc'')]"
  let ?empty = "[(''email'', JStr ''a@b.com''), (''password'', JStr [])]"
  have valid: "spec_login_valid ref_libs ?short"
    by (simp add: spec_login_valid_def obj_get_def ref_libs_def)
  have invalid: "\<not> spec_login_valid ref_libs ?empty"
    by (simp add: spec_login_valid_def obj_get_def)
  have register_rejects: "zobject_parse (buildRegisterSchema ref_libs ref_engine) True ?short =
       Inl (ZodError [\<lparr>path = [''password''],
                       message = ''Password must be at least 6 characters''\<rparr>])"
    by (simp add: engine_defs ref_defs)
  have register_accepts: "zobject_parse (buildRegisterSchema ref_libs custom_engine) True ?empty =
       Inr ?empty"
    by (simp add: engine_defs ref_defs)
  have errs: "spec_login_errors ref_libs ?empty = [(''password'', ''Password is required'')]"
    by (simp add: spec_login_errors_def obj_get_def ref_libs_def)
  have run: "fst (io_catch (login_validated ref_libs (new_AuthEngine ref_config)
                      [(''email'', obj_get ?short ''email''), (''password'', obj_get ?short ''password'')])
                   (\<lambda>e. io_return (login_catch e)) world1) =
       Inr \<lparr>success = False, user = None, token = None,
            error = Some ''Invalid credentials'',
            errors = Some [(''general'', ''Invalid email or password'')]\<rparr>"
    by (simp add: io_defs engine_defs ref_defs)
  note accepted = login_schema_fixed [where L = ref_libs and cfg = ref_config
      and v = "validation ref_config" and c = ?short and w = world1]
  note rejected = login_schema_fixed [where L = ref_libs and cfg = ref_config
      and v = "Some custom_validation" and c = ?empty and w = world1]
  from accepted valid run
  have short: "fst (login ref_libs ref_engine ?short world1) =
       Inr \<lparr>success = False, user = None, token = None,
            error = Some ''Invalid credentials'',
            errors = Some [(''general'', ''Invalid email or password'')]\<rparr>"
    by (simp add: ref_engine_def)
  from rejected
  have "\<not> spec_login_valid ref_libs ?empty \<longrightarrow>
        spec_login_errors ref_libs ?empty \<noteq> [] \<and>
        login ref_libs custom_engine ?empty world1 =
          (Inr \<lparr>success = False, user = None, token = None,
                error = Some (snd (hd (spec_login_errors ref_libs ?empty))),
                errors = Some (spec_login_errors ref_libs ?empty)\<rparr>, world1)"
    unfolding custom_engine_def by (elim conjE)
  from this invalid
  have "spec_login_errors ref_libs ?empty \<noteq> [] \<and>
        login ref_libs custom_engine ?empty world1 =
          (Inr \<lparr>success = False, user = None, token = None,
                error = Some (snd (hd (spec_login_errors ref_libs ?empty))),
                errors = Some (spec_login_errors ref_libs ?empty)\<rparr>, world1)"
    by (rule mp)
  then have empty: "login ref_libs custom_engine ?empty world1 =
       (Inr \<lparr>success = False, user = None, token = None,
             error = Some ''Password is required'',
             errors = Some [(''password'', ''Password is required'')]\<rparr>, world1)"
    by (simp add: errs)
  from valid register_rejects short invalid register_accepts empty show ?thesis
    by (intro conjI)
qed

subsection \<open>Registration: the custom validator\<close>

text \<open>
  C6: when a custom validator is configured and fails on the raw input, \<^verbatim>\<open>register\<close>
  returns \<^verbatim>\<open>{success:false, error:"Validation failed", errors:<the validator's map>}\<close>
  at once and leaves the world untouched; the schema is not consulted, so the message is
  the same for an input that the schema would reject as well.
\<close>

theorem custom_validator_short_circuit:
  assumes "customValidator (this_validationConfig this) = Some cv"
    and "cv data = Inr r" and "\<not> cv_success r"
  shows "register L this data w =
           (Inr \<lparr>success = False, user = None, token = None,
                 error = Some ''Validation failed'', errors = cv_errors r\<rparr>, w)"
  using assms by (simp add: register_def io_catch_def io_bind_def io_return_def io_of_def)

theorem custom_validator_short_circuit_witness:
  "customValidator (this_validationConfig custom_engine) = Some name_required
   \<and> name_required bad_input =
       Inr \<lparr>cv_success = False, cv_errors = Some [(''name'', ''Name is required'')]\<rparr>
   \<and> zobject_parse (buildRegisterSchema ref_libs custom_engine) True bad_input =
       Inl (ZodError [\<lparr>path = [''email''], message = ''Invalid email format''\<rparr>])
   \<and> register ref_libs custom_engine bad_input world0 =
       (Inr \<lparr>success = False, user = None, token = None,
             error = Some ''Validation failed'',
             errors = Some [(''name'', ''Name is required'')]\<rparr>, world0)"
proof -
  have configured: "customValidator (this_validationConfig custom_engine) = Some name_required"
    by (simp add: custom_engine_def custom_validation_def new_AuthEngine_def)
  have rejected: "name_required bad_input =
       Inr \<lparr>cv_success = False, cv_errors = Some [(''name'', ''Name is required'')]\<rparr>"
    by (simp add: name_required_def bad_input_def obj_get_def)
  have failure: "\<not> cv_success \<lparr>cv_success = False, cv_errors = Some [(''name'', ''Name is required'')]\<rparr>"
    by simp
  have schema: "zobject_parse (buildRegisterSchema ref_libs custom_engine) True bad_input =
       Inl (ZodError [\<lparr>path = [''email''], message = ''Invalid email format''\<rparr>])"
    by (simp add: engine_defs ref_defs)
  show ?thesis
    using configured rejected schema
      custom_validator_short_circuit [OF configured rejected failure, of ref_libs world0]
    by simp
qed

subsection \<open>Sanitized users\<close>

lemma register_after_validator:
  "customValidator_passes this data \<Longrightarrow>
   register L this data = io_catch (register_validated L this data) (\<lambda>e. io_return (register_catch e))"
  by (auto simp add: customValidator_passes_def register_def io_bind_def io_of_def
        split: option.splits sum.splits)

lemma io_bind_InrD:
  "io_bind m f w = (Inr r, w') \<Longrightarrow> \<exists>x w1. m w = (Inr x, w1) \<and> f x w1 = (Inr r, w')"
  by (auto simp add: io_bind_def split: prod.splits sum.splits)

lemma io_catch_InrD:
  "io_catch m h w = (Inr r, w') \<Longrightarrow>
     m w = (Inr r, w') \<or> (\<exists>e w1. m w = (Inl e, w1) \<and> h e w1 = (Inr r, w'))"
  by (auto simp add: io_catch_def split: prod.splits sum.splits)

lemma sanitizeUser_no_password: "''password'' \<notin> set (obj_keys (sanitizeUser u))"
  by (simp add: sanitizeUser_def obj_keys_def AList.delete_notin_dom)

lemma register_catch_sanitized: "sanitized (register_catch e)"
  by (cases e) (simp_all add: sanitized_def zodErrorResult_def Let_def)

lemma login_catch_sanitized: "sanitized (login_catch e)"
  by (cases e) (simp_all add: sanitized_def zodErrorResult_def Let_def)

lemma register_validated_sanitized:
  assumes "register_validated L this data w = (Inr r, w')"
  shows "sanitized r"
  using assms
  apply (simp add: register_validated_def)
  apply (drule io_bind_InrD, elim exE conjE)
  apply (drule io_bind_InrD, elim exE conjE)
  subgoal for validated w1 existing w2
    apply (cases existing)
     apply simp
     apply (drule io_bind_InrD, elim exE conjE)
     apply (drule io_bind_InrD, elim exE conjE)
     apply (drule io_bind_InrD, elim exE conjE)
     apply (drule io_bind_InrD, elim exE conjE)
     apply (auto simp add: io_return_def sanitized_def sanitizeUser_no_password userExistsResult_def)
    done
  done


lemma register_sanitized:
  assumes "register L this data w = (Inr r, w')"
  shows "sanitized r"
proof -
  let ?catch = "\<lambda>e. io_return (register_catch e)"
  have validated: "sanitized r" if "io_catch (register_validated L this data) ?catch w = (Inr r, w')"
    using io_catch_InrD [OF that]
    by (auto simp add: io_return_def register_catch_sanitized dest: register_validated_sanitized)
  show ?thesis
  proof (cases "customValidator (this_validationConfig this)")
    case None
    with assms validated show ?thesis by (simp add: register_def)
  next
    case (Some cv)
    show ?thesis
    proof (cases "cv data")
      case (Inl e)
      with Some assms show ?thesis
        by (auto simp add: register_def io_defs register_catch_sanitized)
    next
      case (Inr cr)
      show ?thesis
      proof (cases "cv_success cr")
        case True
        with Some Inr have "customValidator_passes this data"
          by (simp add: customValidator_passes_def)
        from register_after_validator [OF this] assms validated show ?thesis by simp
      next
        case False
        with Some Inr assms show ?thesis
          by (auto simp add: register_def io_defs sanitized_def)
      qed
    qed
  qed
qed

lemma login_validated_sanitized:
  assumes "login_validated L this validated w = (Inr r, w')"
  shows "sanitized r"
  using assms
  apply (simp add: login_validated_def)
  apply (drule io_bind_InrD, elim exE conjE)
  subgoal for found w1
    apply (cases found)
     apply (auto simp add: io_return_def sanitized_def invalidCredentialsResult_def)[1]
    apply (simp split: if_splits)
     apply (auto simp add: io_return_def sanitized_def invalidCredentialsResult_def)[1]
    apply (drule io_bind_InrD, elim exE conjE)
    apply (simp split: if_splits)
     apply (auto simp add: io_return_def sanitized_def invalidCredentialsResult_def)[1]
    apply (drule io_bind_InrD, elim exE conjE)
    apply (drule io_bind_InrD, elim exE conjE)
    apply (auto simp add: io_return_def sanitized_def sanitizeUser_no_password)
    done
  done

lemma login_sanitized:
  assumes "login L this credentials w = (Inr r, w')"
  shows "sanitized r"
proof -
  from assms have "io_catch
       (io_bind (io_of (zobject_parse (defaultLoginSchema L) False credentials))
          (login_validated L this))
       (\<lambda>e. io_return (login_catch e)) w = (Inr r, w')"
    by (simp add: login_def)
  from io_catch_InrD [OF this] show ?thesis
    by (auto simp add: io_return_def login_catch_sanitized
          dest!: io_bind_InrD dest: login_validated_sanitized)
qed

lemma getUser_sanitized:
  assumes "getUser this uid w = (Inr (Some u), w')"
  shows "''password'' \<notin> set (obj_keys u)"
  using io_bind_InrD [OF assms [unfolded getUser_def]]
  by (auto simp add: io_return_def sanitizeUser_no_password split: option.splits)

lemma updateUser_sanitized:
  assumes "engine_updateUser this uid patch w = (Inr u, w')"
  shows "''password'' \<notin> set (obj_keys u)"
  using io_bind_InrD [OF assms [unfolded engine_updateUser_def]]
  by (auto simp add: io_return_def sanitizeUser_no_password)

text \<open>
  C2: every user returned by \<^verbatim>\<open>register\<close>, \<^verbatim>\<open>login\<close>, \<^verbatim>\<open>getUser\<close> and
  \<^verbatim>\<open>updateUser\<close> has no password attribute, for every library, configuration, input
  and world.
\<close>

theorem returned_users_sanitized:
  "(register L this data w1 = (Inr r1, w1') \<longrightarrow> user r1 = Some u1 \<longrightarrow>
      ''password'' \<notin> set (obj_keys u1))
   \<and> (login L this credentials w2 = (Inr r2, w2') \<longrightarrow> user r2 = Some u2 \<longrightarrow>
        ''password'' \<notin> set (obj_keys u2))
   \<and> (getUser this uid w3 = (Inr (Some u3), w3') \<longrightarrow> ''password'' \<notin> set (obj_keys u3))
   \<and> (engine_updateUser this uid' patch w4 = (Inr u4, w4') \<longrightarrow>
        ''password'' \<notin> set (obj_keys u4))"
proof (intro conjI impI)
  assume "register L this data w1 = (Inr r1, w1')" and "user r1 = Some u1"
  then show "''password'' \<notin> set (obj_keys u1)"
    using register_sanitized [of L this data w1 r1 w1'] by (simp add: sanitized_def)
next
  assume "login L this credentials w2 = (Inr r2, w2')" and "user r2 = Some u2"
  then show "''password'' \<notin> set (obj_keys u2)"
    using login_sanitized [of L this credentials w2 r2 w2'] by (simp add: sanitized_def)
next
  assume "getUser this uid w3 = (Inr (Some u3), w3')"
  then show "''password'' \<notin> set (obj_keys u3)" by (rule getUser_sanitized)
next
  assume "engine_updateUser this uid' patch w4 = (Inr u4, w4')"
  then show "''password'' \<notin> set (obj_keys u4)" by (rule updateUser_sanitized)
qed

theorem returned_users_sanitized_witness:
  "''password'' \<in> set (obj_keys alice_stored)
   \<and> register ref_libs ref_engine alice world0 =
     (Inr \<lparr>success = True,
           user = Some [(''id'', JStr ''uuid-''), (''email'', JStr ''a@b.com''),
                        (''createdAt'', JDate 1000), (''updatedAt'', JDate 1000)],
           token = Some ''jwt-'', error = None, errors = None\<rparr>, world1)
   \<and> ''password'' \<notin> set (obj_keys [(''id'', JStr ''uuid-''), (''email'', JStr ''a@b.com''),
                        (''createdAt'', JDate 1000), (''updatedAt'', JDate 1000)])
   \<and> fst (login ref_libs ref_engine alice world1) =
       Inr \<lparr>success = True,
            user = Some [(''id'', JStr ''uuid-''), (''email'', JStr ''a@b.com''),
                         (''createdAt'', JDate 1000), (''updatedAt'', JDate 1000)],
            token = Some ''jwt-x'', error = None, errors = None\<rparr>
   \<and> getUser ref_engine ''uuid-'' world1 =
       (Inr (Some [(''id'', JStr ''uuid-''), (''email'', JStr ''a@b.com''),
                   (''createdAt'', JDate 1000), (''updatedAt'', JDate 1000)]), world1)
   \<and> fst (engine_updateUser ref_engine ''uuid-'' [(''name'', JStr ''Alice'')] world1) =
       Inr [(''id'', JStr ''uuid-''), (''email'', JStr ''a@b.com''),
            (''createdAt'', JDate 1000), (''updatedAt'', JDate 1000), (''name'', JStr ''Alice'')]
   \<and> ''password'' \<notin> set (obj_keys [(''id'', JStr ''uuid-''), (''email'', JStr ''a@b.com''),
            (''createdAt'', JDate 1000), (''updatedAt'', JDate 1000), (''name'', JStr ''Alice'')])"
proof -
  let ?u = "[(''id'', JStr ''uuid-''), (''email'', JStr ''a@b.com''),
             (''createdAt'', JDate 1000), (''updatedAt'', JDate 1000)]"
  let ?u' = "[(''id'', JStr ''uuid-''), (''email'', JStr ''a@b.com''),
             (''createdAt'', JDate 1000), (''updatedAt'', JDate 1000), (''name'', JStr ''Alice'')]"
  let ?r1 = "\<lparr>success = True, user = Some ?u, token = Some ''jwt-'', error = None, errors = None\<rparr>"
  let ?r2 = "\<lparr>success = True, user = Some ?u, token = Some ''jwt-x'', error = None, errors = None\<rparr>"
  let ?w2 = "snd (login ref_libs ref_engine alice world1)"
  let ?w4 = "snd (engine_updateUser ref_engine ''uuid-'' [(''name'', JStr ''Alice'')] world1)"
  have stored: "''password'' \<in> set (obj_keys alice_stored)"
    by (simp add: alice_stored_def obj_keys_def)
  have reg: "register ref_libs ref_engine alice world0 = (Inr ?r1, world1)"
    by (rule register_alice)
  have log: "fst (login ref_libs ref_engine alice world1) = Inr ?r2"
    by (simp add: io_defs engine_defs jwt_defs ref_defs)
  then have log': "login ref_libs ref_engine alice world1 = (Inr ?r2, ?w2)"
    by (simp add: prod_eq_iff)
  have get: "getUser ref_engine ''uuid-'' world1 = (Inr (Some ?u), world1)"
    by (simp add: io_defs engine_defs ref_defs)
  have upd: "fst (engine_updateUser ref_engine ''uuid-'' [(''name'', JStr ''Alice'')] world1) = Inr ?u'"
    by (simp add: io_defs engine_defs ref_defs)
  then have upd': "engine_updateUser ref_engine ''uuid-'' [(''name'', JStr ''Alice'')] world1 = (Inr ?u', ?w4)"
    by (simp add: prod_eq_iff)
  note inst = returned_users_sanitized [where L = ref_libs and this = ref_engine
      and data = alice and ?w1.0 = world0 and ?r1.0 = ?r1 and w1' = world1 and ?u1.0 = ?u
      and credentials = alice and ?w2.0 = world1 and ?r2.0 = ?r2 and w2' = ?w2 and ?u2.0 = ?u
      and uid = "''uuid-''" and ?w3.0 = world1 and ?u3.0 = ?u and w3' = world1
      and uid' = "''uuid-''" and patch = "[(''name'', JStr ''Alice'')]" and ?w4.0 = world1
      and ?u4.0 = ?u' and w4' = ?w4]
  from inst reg log' get have clean: "''password'' \<notin> set (obj_keys ?u)"
    by simp
  from inst upd' have clean': "''password'' \<notin> set (obj_keys ?u')"
    by simp
  from stored reg clean log get upd clean' show ?thesis
    by (intro conjI)
qed

subsection \<open>Registration: duplicates and failures after persistence\<close>

lemma register_validated_duplicate:
  assumes "zobject_parse (buildRegisterSchema L this) True data = Inr validated"
    and "findUserByEmail (this_adapter this) (obj_get validated ''email'') w = (Inr (Some existing), w1)"
  shows "register_validated L this data w = (Inr userExistsResult, w1)"
  using assms by (simp add: register_validated_def io_defs)

lemma register_validated_created:
  assumes "zobject_parse (buildRegisterSchema L this) True data = Inr validated"
    and "findUserByEmail (this_adapter this) (obj_get validated ''email'') w = (Inr None, w1)"
    and "bcrypt_hash L (obj_get validated ''password'') SALT_ROUNDS w1 = (Inr hashed, w2)"
    and "createUser (this_adapter this) (createUserData validated hashed) w2 = (Inr u, w3)"
  shows "register_validated L this data w =
           io_bind (io_bind (run_callback (callbacks (this_config this)) onRegister u)
                      (\<lambda>done. generateToken (this_strategy this) u))
             (\<lambda>tok. io_return \<lparr>success = True, user = Some (sanitizeUser u), token = Some tok,
                                error = None, errors = None\<rparr>) w3"
  using assms by (simp add: register_validated_def io_defs split: prod.splits sum.splits)

text \<open>
  C4: when the custom validator (if any) accepts the input, the schema accepts it and
  the lookup of the validated email returns a user, \<^verbatim>\<open>register\<close> returns
  \<^verbatim>\<open>{success:false, error:"User already exists", errors:{email:"This email is already
  registered"}}\<close>. The world after the call is the world the lookup left (the world
  itself for a read-only lookup such as the in-memory adapter's), and the outcome is the
  same whatever \<^verbatim>\<open>createUser\<close> is: it is not called and no record is created.
\<close>

theorem register_duplicate_email:
  assumes "customValidator_passes this data"
    and "zobject_parse (buildRegisterSchema L this) True data = Inr validated"
    and "findUserByEmail (this_adapter this) (obj_get validated ''email'') w
           = (Inr (Some existing), w1)"
  shows "register L this data w =
           (Inr \<lparr>success = False, user = None, token = None,
                 error = Some ''User already exists'',
                 errors = Some [(''email'', ''This email is already registered'')]\<rparr>, w1)
         \<and> register L (this\<lparr>this_adapter := (this_adapter this)\<lparr>createUser := f\<rparr>\<rparr>) data w
             = register L this data w"
proof -
  let ?this' = "this\<lparr>this_adapter := (this_adapter this)\<lparr>createUser := f\<rparr>\<rparr>"
  have "register L this data w = (Inr userExistsResult, w1)"
    using register_validated_duplicate [OF assms(2,3)]
    by (simp add: register_after_validator [OF assms(1)] io_catch_def)
  moreover have "customValidator_passes ?this' data"
    using assms(1) by (simp add: customValidator_passes_def)
  moreover have "zobject_parse (buildRegisterSchema L ?this') True data = Inr validated"
    using assms(2) by (simp add: buildRegisterSchema_def)
  moreover have "findUserByEmail (this_adapter ?this') (obj_get validated ''email'') w
           = (Inr (Some existing), w1)"
    using assms(3) by simp
  ultimately show ?thesis
    using register_validated_duplicate [of L ?this' data validated w existing w1]
    by (simp add: register_after_validator io_catch_def userExistsResult_def)
qed

theorem register_duplicate_email_witness:
  "customValidator_passes ref_engine alice
   \<and> findUserByEmail (this_adapter ref_engine) (JStr ''a@b.com'') world1
       = (Inr (Some alice_stored), world1)
   \<and> register ref_libs ref_engine alice world1 =
       (Inr \<lparr>success = False, user = None, token = None,
             error = Some ''User already exists'',
             errors = Some [(''email'', ''This email is already registered'')]\<rparr>, world1)
   \<and> register ref_libs
        (ref_engine\<lparr>this_adapter :=
           (this_adapter ref_engine)\<lparr>createUser := (\<lambda>d. io_throw (Error ''not reached''))\<rparr>\<rparr>)
        alice world1
       = register ref_libs ref_engine alice world1"
proof -
  have passes: "customValidator_passes ref_engine alice"
    by (simp add: customValidator_passes_def ref_engine_def ref_config_def new_AuthEngine_def)
  have parsed: "zobject_parse (buildRegisterSchema ref_libs ref_engine) True alice = Inr alice"
    by (simp add: engine_defs ref_defs)
  have found: "findUserByEmail (this_adapter ref_engine) (obj_get alice ''email'') world1
       = (Inr (Some alice_stored), world1)"
    by (simp add: io_defs engine_defs ref_defs)
  then have found': "findUserByEmail (this_adapter ref_engine) (JStr ''a@b.com'') world1
       = (Inr (Some alice_stored), world1)"
    by (simp add: obj_get_def alice_def)
  from register_duplicate_email [OF passes parsed found,
      where f = "\<lambda>d. io_throw (Error ''not reached'')"]
    passes found' show ?thesis
    by (intro conjI) (elim conjE, assumption)+
qed

text \<open>
  C8, as stated, fails when the callback throws a \<open>ZodError\<close>: the catch block formats
  it as a validation failure.
\<close>

theorem onRegister_zod_failure_counterexample:
  "createUser (this_adapter (engine_with_onRegister zod_onRegister))
       (createUserData alice ''$2b$secret1'') world0 = (Inr alice_stored, world_created)
   \<and> zod_onRegister alice_stored world_created =
       (Inl (ZodError [\<lparr>path = [''profile''], message = ''Profile is incomplete''\<rparr>]),
        world_created)
   \<and> register ref_libs (engine_with_onRegister zod_onRegister) alice world0 =
       (Inr \<lparr>success = False, user = None, token = None,
             error = Some ''Profile is incomplete'',
             errors = Some [(''profile'', ''Profile is incomplete'')]\<rparr>,
        world_created)"
  by (simp add: io_defs engine_defs jwt_defs ref_defs)

text \<open>
  C8, amended: when the user has been persisted and the configured \<^verbatim>\<open>onRegister\<close>
  callback throws an error that is not a \<open>ZodError\<close>, \<^verbatim>\<open>register\<close> returns
  \<^verbatim>\<open>{success:false, error:"Registration failed: " + message}\<close>, and the world is the one
  the callback left.
\<close>

theorem onRegister_failure_propagates:
  assumes "customValidator_passes this data"
    and "zobject_parse (buildRegisterSchema L this) True data = Inr validated"
    and "findUserByEmail (this_adapter this) (obj_get validated ''email'') w = (Inr None, w1)"
    and "bcrypt_hash L (obj_get validated ''password'') SALT_ROUNDS w1 = (Inr hashed, w2)"
    and "createUser (this_adapter this) (createUserData validated hashed) w2 = (Inr u, w3)"
    and "callbacks (this_config this) = Some cbs" and "onRegister cbs = Some cb"
    and "cb u w3 = (Inl e, w4)"
    and "\<forall>issues. e \<noteq> ZodError issues"
  shows "register L this data w =
           (Inr \<lparr>success = False, user = None, token = None,
                 error = Some (''Registration failed: '' @ exn_message e), errors = None\<rparr>, w4)"
proof -
  have "io_bind (run_callback (callbacks (this_config this)) onRegister u)
           (\<lambda>done. generateToken (this_strategy this) u) w3 = (Inl e, w4)"
    using assms(6-8) by (simp add: run_callback_def io_bind_def)
  then have "register L this data w = (Inr (register_catch e), w4)"
    by (simp add: register_after_validator [OF assms(1)]
          register_validated_created [OF assms(2-5)] io_catch_def io_bind_def io_return_def)
  moreover have "register_catch e =
      \<lparr>success = False, user = None, token = None,
       error = Some (''Registration failed: '' @ exn_message e), errors = None\<rparr>"
    using assms(9) by (cases e) simp_all
  ultimately show ?thesis by simp
qed

theorem onRegister_failure_propagates_witness:
  "createUser (this_adapter (engine_with_onRegister failing_onRegister))
       (createUserData alice ''$2b$secret1'') world0 = (Inr alice_stored, world_created)
   \<and> failing_onRegister alice_stored world_created = (Inl (Error ''mail server down''), world_created)
   \<and> register ref_libs (engine_with_onRegister failing_onRegister) alice world0 =
       (Inr \<lparr>success = False, user = None, token = None,
             error = Some ''Registration failed: mail server down'', errors = None\<rparr>,
        world_created)"
proof -
  let ?eng = "engine_with_onRegister failing_onRegister"
  have passes: "customValidator_passes ?eng alice"
    by (simp add: customValidator_passes_def engine_with_onRegister_def ref_config_def
          new_AuthEngine_def)
  have parsed: "zobject_parse (buildRegisterSchema ref_libs ?eng) True alice = Inr alice"
    by (simp add: engine_defs ref_defs)
  have absent: "findUserByEmail (this_adapter ?eng) (obj_get alice ''email'') world0
       = (Inr None, world0)"
    by (simp add: io_defs engine_defs ref_defs)
  have hashed: "bcrypt_hash ref_libs (obj_get alice ''password'') SALT_ROUNDS world0
       = (Inr ''$2b$secret1'', world0)"
    by (simp add: io_defs engine_defs ref_defs)
  have created: "createUser (this_adapter ?eng) (createUserData alice ''$2b$secret1'') world0
       = (Inr alice_stored, world_created)"
    by (simp add: io_defs engine_defs ref_defs)
  have cbs: "callbacks (this_config ?eng)
       = Some \<lparr>onLogin = None, onRegister = Some failing_onRegister, onLogout = None\<rparr>"
    by (simp add: engine_with_onRegister_def new_AuthEngine_def)
  have cb: "onRegister \<lparr>onLogin = None, onRegister = Some failing_onRegister, onLogout = None\<rparr>
       = Some failing_onRegister"
    by simp
  have thrown: "failing_onRegister alice_stored world_created
       = (Inl (Error ''mail server down''), world_created)"
    by (simp add: failing_onRegister_def io_throw_def)
  have other: "\<forall>issues. Error ''mail server down'' \<noteq> ZodError issues"
    by simp
  from onRegister_failure_propagates [OF passes parsed absent hashed created cbs cb thrown other]
    created thrown show ?thesis
    by simp
qed

















subsection \<open>The token round trip\<close>

lemma fold_update_keys:
  "fst ` set (fold (\<lambda>key acc. AList.update key (g key) acc) ks acc) = set ks \<union> fst ` set acc"
  by (induction ks arbitrary: acc) (auto simp add: AList.dom_update)

lemma obj_spread_keys: "fst ` set (obj_spread acc src) = fst ` set acc \<union> fst ` set src"
  unfolding obj_spread_def
  by (induction src arbitrary: acc) (auto simp add: AList.dom_update)

lemma obj_spread_get_other:
  "k \<notin> fst ` set src \<Longrightarrow> obj_get (obj_spread acc src) k = obj_get acc k"
  unfolding obj_spread_def obj_get_def
  by (induction src arbitrary: acc) (auto simp add: AList.update_conv')

lemma token_payload_keys:
  "set (obj_keys (token_payload u)) = {''sub'', ''email''} \<union> (set (obj_keys u) - {''id'', ''password''})"
  by (auto simp add: token_payload_def obj_keys_def obj_spread_keys fold_update_keys)

lemma token_payload_sub:
  assumes "''sub'' \<notin> set (obj_keys u)"
  shows "obj_get (token_payload u) ''sub'' = obj_get u ''id''"
proof -
  let ?rest = "fold (\<lambda>key acc. AList.update key (obj_get u key) acc)
                 (filter (\<lambda>key. key \<notin> set [''id'', ''password'']) (obj_keys u)) []"
  let ?head = "[(''sub'', obj_get u ''id''), (''email'', obj_get u ''email'')]"
  from assms have "''sub'' \<notin> fst ` set ?rest"
    by (simp add: fold_update_keys)
  then have "obj_get (obj_spread ?head ?rest) ''sub'' = obj_get ?head ''sub''"
    by (rule obj_spread_get_other)
  also have "\<dots> = obj_get u ''id''"
    by (simp add: obj_get_def)
  finally show ?thesis
    by (simp add: token_payload_def)
qed

subsection \<open>The token library and the signing primitive\<close>

lemma dec_enc_nat: "dec_nat (enc_nat n @ r) = (n, r)"
  by (induction n) (simp_all add: enc_nat_def)

lemma dec_enc_str: "dec_str (enc_str s @ r) = (s, r)"
  by (simp add: dec_str_def enc_str_def dec_enc_nat)

lemma dec_enc_int: "dec_int (enc_int i @ r) = (i, r)"
  by (simp add: enc_int_def dec_enc_nat)

lemma dec_enc_val: "dec_val (enc_val v @ r) = (v, r)"
  by (cases v) (simp_all add: dec_enc_int dec_enc_str)

lemma dec_enc_props:
  "dec_props (length obj) (concat (map (\<lambda>kv. enc_str (fst kv) @ enc_val (snd kv)) obj) @ r)
     = (obj, r)"
  by (induction obj) (simp_all add: dec_enc_str dec_enc_val)

lemma dec_enc_obj: "dec_obj (enc_obj obj) = obj"
  using dec_enc_props [of obj "[]"] by (simp add: dec_obj_def enc_obj_def dec_enc_nat)

lemma plain_parse_sign:
  "key \<noteq> [] \<Longrightarrow>
   plain_parse (plain_sign claims k) key =
     (if k = key then Verified (json_object plain_date claims) else BadSignature)"
  by (simp add: plain_parse_def plain_sign_def dec_enc_str dec_enc_obj)

lemma plain_jws_correct: "jws_correct plain_jws"
  by (simp add: jws_correct_def plain_jws_def plain_parse_sign)

lemmas plain_defs = plain_libs_def plain_jws_def jsonwebtoken_sign_def jsonwebtoken_verify_def
  sign_claims_def verify_claims_def validatePayload_def timespan_def option_value_def
  not_yet_active_def expired_def expected_def audience_error_def issuer_error_def
  json_object_def alice_claims_def user_with_nbf_def issuer_config_def world_later_def
  active_def unexpired_def audience_mismatch_def issuer_mismatch_def

lemma obj_get_update: "obj_get (AList.update k v obj) k' = (if k' = k then v else obj_get obj k')"
  by (simp add: obj_get_def AList.update_conv')

lemma obj_keys_update: "set (obj_keys (AList.update k v obj)) = insert k (set (obj_keys obj))"
  using AList.dom_update [of k v obj] by (simp add: obj_keys_def)

lemma distinct_update_keys: "distinct (obj_keys obj) \<Longrightarrow> distinct (obj_keys (AList.update k v obj))"
  by (simp add: obj_keys_def AList.distinct_update)

lemma sign_claims_get:
  assumes "sign_claims P payload opts now = Inr claims"
    and "k \<notin> {''iat'', ''exp'', ''aud'', ''iss''}"
  shows "obj_get claims k = obj_get payload k"
  using assms
  by (auto simp add: sign_claims_def Let_def obj_get_update
        split: sum.splits if_splits option.splits)

lemma sign_claims_keys:
  assumes "sign_claims P payload opts now = Inr claims"
  shows "set (obj_keys claims) \<subseteq> set (obj_keys payload) \<union> {''iat'', ''exp'', ''aud'', ''iss''}"
  using assms
  by (auto simp add: sign_claims_def Let_def obj_keys_update
        split: sum.splits if_splits option.splits)

lemma sign_claims_distinct:
  assumes "sign_claims P payload opts now = Inr claims" and "distinct (obj_keys payload)"
  shows "distinct (obj_keys claims)"
  using assms
  by (auto simp add: sign_claims_def Let_def distinct_update_keys
        split: sum.splits if_splits option.splits)

lemma sign_claims_exp:
  assumes "sign_claims P payload opts now = Inr claims"
  shows "\<exists>e. obj_get claims ''exp'' = JNum e"
  using assms
  by (auto simp add: sign_claims_def Let_def obj_get_update
        split: sum.splits if_splits option.splits)

lemma sign_claims_aud:
  assumes "sign_claims P payload opts now = Inr claims" and "sign_audience opts = Some a"
  shows "obj_get claims ''aud'' = JStr a"
  using assms
  by (auto simp add: sign_claims_def Let_def obj_get_update
        split: sum.splits if_splits option.splits)

lemma sign_claims_iss:
  assumes "sign_claims P payload opts now = Inr claims" and "sign_issuer opts = Some i"
  shows "obj_get claims ''iss'' = JStr i"
  using assms
  by (auto simp add: sign_claims_def Let_def obj_get_update
        split: sum.splits if_splits option.splits)


lemma json_keys: "set (obj_keys (json_object fmt obj)) \<subseteq> set (obj_keys obj)"
proof (induction obj)
  case Nil
  then show ?case by (simp add: json_object_def obj_keys_def)
next
  case (Cons kv obj)
  obtain k v where kv: "kv = (k, v)" by (cases kv)
  from Cons show ?case
    unfolding kv by (cases v) (auto simp add: json_object_def obj_keys_def)
qed

lemma json_get_absent:
  "k \<notin> set (obj_keys obj) \<Longrightarrow> obj_get (json_object fmt obj) k = JUndefined"
proof -
  assume "k \<notin> set (obj_keys obj)"
  with json_keys [of fmt obj] have "k \<notin> fst ` set (json_object fmt obj)"
    by (auto simp add: obj_keys_def)
  then have "map_of (json_object fmt obj) k = None"
    by (simp add: map_of_eq_None_iff)
  then show ?thesis by (simp add: obj_get_def)
qed

lemma json_get_string:
  assumes "distinct (obj_keys obj)" and "obj_get obj k = JStr s"
  shows "obj_get (json_object fmt obj) k = JStr s"
  using assms
proof (induction obj)
  case Nil
  then show ?case by (simp add: obj_get_def)
next
  case (Cons kv obj)
  obtain k' v where kv: "kv = (k', v)" by (cases kv)
  show ?case
  proof (cases "k' = k")
    case True
    with Cons.prems kv have "v = JStr s" by (simp add: obj_get_def)
    with True kv show ?thesis by (simp add: json_object_def obj_get_def)
  next
    case False
    with Cons.prems kv have "obj_get obj k = JStr s" and "distinct (obj_keys obj)"
      by (simp_all add: obj_get_def obj_keys_def)
    then have "obj_get (json_object fmt obj) k = JStr s" by (rule Cons.IH [rotated])
    with False kv show ?thesis
      by (cases v) (simp_all add: json_object_def obj_get_def)
  qed
qed

lemma json_get_number:
  assumes "distinct (obj_keys obj)" and "obj_get obj k = JNum n"
  shows "obj_get (json_object fmt obj) k = JNum n"
  using assms
proof (induction obj)
  case Nil
  then show ?case by (simp add: obj_get_def)
next
  case (Cons kv obj)
  obtain k' v where kv: "kv = (k', v)" by (cases kv)
  show ?case
  proof (cases "k' = k")
    case True
    with Cons.prems kv have "v = JNum n" by (simp add: obj_get_def)
    with True kv show ?thesis by (simp add: json_object_def obj_get_def)
  next
    case False
    with Cons.prems kv have "obj_get obj k = JNum n" and "distinct (obj_keys obj)"
      by (simp_all add: obj_get_def obj_keys_def)
    then have "obj_get (json_object fmt obj) k = JNum n" by (rule Cons.IH [rotated])
    with False kv show ?thesis
      by (cases v) (simp_all add: json_object_def obj_get_def)
  qed
qed

lemma fold_update_distinct:
  "distinct (obj_keys acc) \<Longrightarrow>
   distinct (obj_keys (fold (\<lambda>key a. AList.update key (g key) a) ks acc))"
  by (induction ks arbitrary: acc) (simp_all add: distinct_update_keys)

lemma obj_spread_distinct:
  "distinct (obj_keys acc) \<Longrightarrow> distinct (obj_keys (obj_spread acc src))"
  unfolding obj_spread_def
  by (induction src arbitrary: acc) (simp_all add: distinct_update_keys)

lemma token_payload_distinct: "distinct (obj_keys (token_payload u))"
proof -
  have "distinct (obj_keys [(''sub'', obj_get u ''id''), (''email'', obj_get u ''email'')])"
    by (simp add: obj_keys_def)
  then show ?thesis
    unfolding token_payload_def by (rule obj_spread_distinct)
qed


lemma signed_token:
  assumes "jsonwebtoken_sign P payload key opts w = (Inr tok, w1)"
  shows "key \<noteq> [] \<and> w1 = w \<and>
         (\<exists>claims. sign_claims P payload opts (date_now P w div 1000) = Inr claims
                   \<and> tok = jws_sign P claims key)"
  using assms
  by (auto simp add: jsonwebtoken_sign_def split: if_splits sum.splits)

lemma expected_sign_audience:
  "expected (audience config) = sign_audience (sign_options config)"
  by (simp add: expected_def sign_options_def)

lemma expected_sign_issuer:
  "expected (issuer config) = sign_issuer (sign_options config)"
  by (simp add: expected_def sign_options_def)

lemma is_number_JNum: "is_number v \<Longrightarrow> \<exists>n. v = JNum n"
  by (cases v) simp_all

lemma json_get_undefined:
  assumes "distinct (obj_keys obj)" and "obj_get obj k = JUndefined"
  shows "obj_get (json_object fmt obj) k = JUndefined"
  using assms
proof (induction obj)
  case Nil
  then show ?case by (simp add: obj_get_def json_object_def)
next
  case (Cons kv obj)
  obtain k' v where kv: "kv = (k', v)" by (cases kv)
  show ?case
  proof (cases "k' = k")
    case True
    with Cons.prems kv have "v = JUndefined" and "k \<notin> set (obj_keys obj)"
      by (simp_all add: obj_get_def obj_keys_def)
    with True kv json_get_absent [of k obj fmt] show ?thesis
      by (simp add: json_object_def)
  next
    case False
    with Cons.prems kv have "obj_get obj k = JUndefined" and "distinct (obj_keys obj)"
      by (simp_all add: obj_get_def obj_keys_def)
    then have "obj_get (json_object fmt obj) k = JUndefined" by (rule Cons.IH [rotated])
    with False kv show ?thesis
      by (cases v) (simp_all add: json_object_def obj_get_def)
  qed
qed

lemma validatePayload_number:
  assumes "validatePayload payload = Inr valid" and "k \<in> {''iat'', ''exp'', ''nbf''}"
    and "obj_get payload k \<noteq> JUndefined"
  shows "is_number (obj_get payload k)"
proof -
  from assms(3) obtain v where v: "map_of payload k = Some v"
    by (auto simp add: obj_get_def split: option.splits)
  then have mem: "(k, v) \<in> set payload" by (rule map_of_SomeD)
  from assms(1) have "filter (\<lambda>kv. fst kv \<in> set [''iat'', ''exp'', ''nbf''] \<and> \<not> is_number (snd kv))
                        payload = []"
    by (simp add: validatePayload_def split: list.splits)
  with mem assms(2) have "is_number v"
    by (auto simp add: filter_empty_conv)
  with v show ?thesis by (simp add: obj_get_def)
qed

lemma sign_claims_number:
  assumes "sign_claims P payload opts now = Inr claims"
  shows "obj_get payload k = JUndefined \<or> k \<notin> {''iat'', ''exp'', ''nbf''}
         \<or> is_number (obj_get payload k)"
proof -
  from assms obtain valid where "validatePayload payload = Inr valid"
    by (cases "validatePayload payload") (simp_all add: sign_claims_def)
  from validatePayload_number [OF this, of k] show ?thesis by blast
qed

text \<open>
  C3, as stated, fails for three users, each of whom gets a token that is verified with
  the same configuration well before it expires. For a user whose id is the empty string
  \<^verbatim>\<open>verify\<close> answers "Invalid token payload". For a user that carries an attribute
  named \<^verbatim>\<open>sub\<close>, that attribute replaces the subject claim, and \<^verbatim>\<open>verify\<close> yields a
  user whose id is the attribute's value. For a user that carries an attribute named
  \<^verbatim>\<open>nbf\<close> with a time in the future, the token carries that time: it is not yet
  active and \<^verbatim>\<open>verify\<close> answers "Invalid token".
\<close>

theorem token_roundtrip_counterexample:
  "JWTStrategy_generateToken plain_libs ref_strategy_config user_empty_id world0 =
     (Inr (plain_sign [(''sub'', JStr []), (''email'', JStr ''a@b.com''),
                       (''iat'', JNum 1), (''exp'', JNum 604801)] ''s3cret''), world0)
   \<and> JWTStrategy_verify plain_libs ref_strategy_config
        (plain_sign [(''sub'', JStr []), (''email'', JStr ''a@b.com''),
                     (''iat'', JNum 1), (''exp'', JNum 604801)] ''s3cret'') world0 =
       (Inr \<lparr>success = False, user = None, token = None,
             error = Some ''Invalid token payload'', errors = None\<rparr>, world0)
   \<and> JWTStrategy_generateToken plain_libs ref_strategy_config user_with_sub world0 =
       (Inr (plain_sign [(''sub'', JStr ''uuid-''), (''email'', JStr ''m@b.com''),
                         (''iat'', JNum 1), (''exp'', JNum 604801)] ''s3cret''), world0)
   \<and> JWTStrategy_verify plain_libs ref_strategy_config
        (plain_sign [(''sub'', JStr ''uuid-''), (''email'', JStr ''m@b.com''),
                     (''iat'', JNum 1), (''exp'', JNum 604801)] ''s3cret'') world0 =
       (Inr \<lparr>success = True,
             user = Some [(''id'', JStr ''uuid-''), (''email'', JStr ''m@b.com''),
                          (''sub'', JStr ''uuid-''), (''iat'', JNum 1),
                          (''exp'', JNum 604801)],
             token = None, error = None, errors = None\<rparr>, world0)
   \<and> obj_get user_with_sub ''id'' = JStr ''uuid-i''
   \<and> JWTStrategy_generateToken plain_libs ref_strategy_config user_with_nbf world0 =
       (Inr (plain_sign [(''sub'', JStr ''uuid-''), (''email'', JStr ''a@b.com''),
                         (''nbf'', JNum 4102444800), (''iat'', JNum 1),
                         (''exp'', JNum 604801)] ''s3cret''), world0)
   \<and> JWTStrategy_verify plain_libs ref_strategy_config
        (plain_sign [(''sub'', JStr ''uuid-''), (''email'', JStr ''a@b.com''),
                     (''nbf'', JNum 4102444800), (''iat'', JNum 1),
                     (''exp'', JNum 604801)] ''s3cret'') world0 =
       (Inr \<lparr>success = False, user = None, token = None,
             error = Some ''Invalid token'', errors = None\<rparr>, world0)"
  by (simp add: io_defs jwt_defs ref_defs plain_defs plain_parse_sign
        obj_get_def obj_keys_def obj_spread_def)

text \<open>
  C3, amended: for a user whose id is a non-empty string and who has no attribute named
  \<^verbatim>\<open>sub\<close>, a token produced by \<^verbatim>\<open>generateToken\<close> and verified with the same
  configuration while it is valid (before the expiration it carries, and not before the
  not-before time it may carry) is accepted, and \<^verbatim>\<open>verify\<close> yields a user whose id
  is the user's id. The token library is the one modelled above; of the signing primitive
  only its correctness is used.
\<close>

theorem token_roundtrip:
  assumes sign: "jwt_sign L = jsonwebtoken_sign P"
    and verify: "jwt_verify L = jsonwebtoken_verify P"
    and correct: "jws_correct P"
    and uid: "obj_get u ''id'' = JStr uid" and nonempty: "uid \<noteq> []"
    and nosub: "''sub'' \<notin> set (obj_keys u)"
    and issued: "JWTStrategy_generateToken L config u w = (Inr tok, w1)"
    and valid: "\<forall>claims. jws_parse P tok (secret config) = Verified claims \<longrightarrow>
                  \<not> not_yet_active claims (date_now P w2 div 1000) \<and>
                  \<not> expired claims (date_now P w2 div 1000)"
  shows "\<exists>usr. JWTStrategy_verify L config tok w2 =
                 (Inr \<lparr>success = True, user = Some usr, token = None,
                       error = None, errors = None\<rparr>, w2)
               \<and> obj_get usr ''id'' = JStr uid"
proof -
  let ?now = "date_now P w2 div 1000"
  let ?opts = "\<lparr>verify_issuer = issuer config, verify_audience = audience config\<rparr>"
  from issued have "jsonwebtoken_sign P (token_payload u) (secret config) (sign_options config) w
                      = (Inr tok, w1)"
    by (simp add: JWTStrategy_generateToken_def sign)
  from signed_token [OF this] obtain claims where key: "secret config \<noteq> []"
    and claims: "sign_claims P (token_payload u) (sign_options config) (date_now P w div 1000)
                   = Inr claims"
    and tok: "tok = jws_sign P claims (secret config)"
    by (elim conjE exE)
  let ?decoded = "json_object (toISOString P) claims"
  from correct key tok have parsed: "jws_parse P tok (secret config) = Verified ?decoded"
    by (simp add: jws_correct_def)
  have distinct: "distinct (obj_keys claims)"
    using claims token_payload_distinct by (rule sign_claims_distinct)
  have keys: "set (obj_keys ?decoded) \<subseteq>
                {''sub'', ''email''} \<union> (set (obj_keys u) - {''id'', ''password''})
                \<union> {''iat'', ''exp'', ''aud'', ''iss''}"
    using json_keys [of "toISOString P" claims] sign_claims_keys [OF claims]
    by (auto simp add: token_payload_keys)
  have "obj_get claims ''sub'' = obj_get (token_payload u) ''sub''"
    using claims by (rule sign_claims_get) simp
  then have "obj_get claims ''sub'' = JStr uid"
    by (simp add: token_payload_sub [OF nosub] uid)
  with distinct have sub: "obj_get ?decoded ''sub'' = JStr uid"
    by (rule json_get_string)
  have "obj_get claims ''nbf'' = obj_get (token_payload u) ''nbf''"
    using claims by (rule sign_claims_get) simp
  with sign_claims_number [OF claims, of "''nbf''"]
  have "obj_get claims ''nbf'' = JUndefined \<or> (\<exists>n. obj_get claims ''nbf'' = JNum n)"
    by (auto dest: is_number_JNum)
  with distinct have nbf: "obj_get ?decoded ''nbf'' = JUndefined \<or> is_number (obj_get ?decoded ''nbf'')"
    by (auto simp add: json_get_undefined json_get_number)
  from sign_claims_exp [OF claims] obtain e where "obj_get claims ''exp'' = JNum e" ..
  with distinct have exp: "obj_get ?decoded ''exp'' = JNum e"
    by (rule json_get_number)
  from valid parsed have fresh: "\<not> not_yet_active ?decoded ?now" "\<not> expired ?decoded ?now"
    by simp_all
  have aud: "audience_error ?decoded ?opts = None"
  proof (cases "expected (audience config)")
    case None
    then show ?thesis by (simp add: audience_error_def)
  next
    case (Some a)
    then have "sign_audience (sign_options config) = Some a"
      by (simp add: expected_sign_audience)
    with claims have "obj_get claims ''aud'' = JStr a" by (rule sign_claims_aud)
    with distinct have "obj_get ?decoded ''aud'' = JStr a" by (rule json_get_string)
    with Some show ?thesis by (simp add: audience_error_def)
  qed
  have iss: "issuer_error ?decoded ?opts = None"
  proof (cases "expected (issuer config)")
    case None
    then show ?thesis by (simp add: issuer_error_def)
  next
    case (Some i)
    then have "sign_issuer (sign_options config) = Some i"
      by (simp add: expected_sign_issuer)
    with claims have "obj_get claims ''iss'' = JStr i" by (rule sign_claims_iss)
    with distinct have "obj_get ?decoded ''iss'' = JStr i" by (rule json_get_string)
    with Some show ?thesis by (simp add: issuer_error_def)
  qed
  have "verify_claims ?decoded ?opts ?now = Inr ?decoded"
    using nbf exp fresh aud iss by (auto simp add: verify_claims_def)
  with parsed have accepted: "jwt_verify L tok (secret config) ?opts w2 = (Inr ?decoded, w2)"
    by (simp add: verify jsonwebtoken_verify_def)
  let ?usr = "obj_spread [(''id'', obj_get ?decoded ''sub''),
                          (''email'', obj_get ?decoded ''email'')] ?decoded"
  have "''id'' \<notin> fst ` set ?decoded"
    using keys by (auto simp add: obj_keys_def)
  then have "obj_get ?usr ''id'' =
      obj_get [(''id'', obj_get ?decoded ''sub''), (''email'', obj_get ?decoded ''email'')] ''id''"
    by (rule obj_spread_get_other)
  with sub have "obj_get ?usr ''id'' = JStr uid"
    by (simp add: obj_get_def)
  moreover have "JWTStrategy_verify L config tok w2 =
      (Inr \<lparr>success = True, user = Some ?usr, token = None, error = None, errors = None\<rparr>, w2)"
    using accepted sub nonempty by (simp add: JWTStrategy_verify_def io_defs)
  ultimately show ?thesis
    by (intro exI conjI)
qed

theorem token_roundtrip_witness:
  "JWTStrategy_generateToken plain_libs ref_strategy_config alice_stored world_created
     = (Inr (plain_sign alice_claims ''s3cret''), world_created)
   \<and> obj_get alice_stored ''id'' = JStr ''uuid-''
   \<and> (\<exists>usr. JWTStrategy_verify plain_libs ref_strategy_config
                (plain_sign alice_claims ''s3cret'') world1 =
                 (Inr \<lparr>success = True, user = Some usr, token = None,
                       error = None, errors = None\<rparr>, world1)
               \<and> obj_get usr ''id'' = JStr ''uuid-'')"
proof -
  have sign: "jwt_sign plain_libs = jsonwebtoken_sign plain_jws"
    and verify: "jwt_verify plain_libs = jsonwebtoken_verify plain_jws"
    by (simp_all add: plain_libs_def)
  have uid: "obj_get alice_stored ''id'' = JStr ''uuid-''"
    by (simp add: alice_stored_def obj_get_def)
  have nonempty: "''uuid-'' \<noteq> []"
    by simp
  have nosub: "''sub'' \<notin> set (obj_keys alice_stored)"
    by (simp add: alice_stored_def obj_keys_def)
  have issued: "JWTStrategy_generateToken plain_libs ref_strategy_config alice_stored world_created
     = (Inr (plain_sign alice_claims ''s3cret''), world_created)"
    by (simp add: io_defs jwt_defs ref_defs plain_defs obj_get_def obj_keys_def obj_spread_def)
  have valid: "\<forall>claims. jws_parse plain_jws (plain_sign alice_claims ''s3cret'')
        (secret ref_strategy_config) = Verified claims \<longrightarrow>
      \<not> not_yet_active claims (date_now plain_jws world1 div 1000) \<and>
      \<not> expired claims (date_now plain_jws world1 div 1000)"
    by (simp add: plain_jws_def plain_parse_sign ref_strategy_config_def
          new_JWTStrategyConfig_def ref_jwt_config_def json_object_def alice_claims_def
          expired_def not_yet_active_def obj_get_def world1_def world0_def)
  from token_roundtrip [OF sign verify plain_jws_correct uid nonempty nosub issued valid]
    issued uid
  show ?thesis
    by (intro conjI)
qed

subsection \<open>Token verification failures, by cause\<close>

lemma verify_thrown:
  assumes "jwt_verify L tok (secret config)
             \<lparr>verify_issuer = issuer config, verify_audience = audience config\<rparr> w = (Inl e, w')"
  shows "JWTStrategy_verify L config tok w = (Inr (verify_catch e), w')"
  using assms by (simp add: JWTStrategy_verify_def io_defs)

lemma audience_mismatch_error:
  "audience_mismatch claims config \<Longrightarrow>
   \<exists>m. audience_error claims \<lparr>verify_issuer = issuer config, verify_audience = audience config\<rparr>
          = Some (JsonWebTokenError m)"
  by (auto simp add: audience_mismatch_def audience_error_def expected_def split: option.splits)

lemma issuer_mismatch_error:
  "issuer_mismatch claims config \<Longrightarrow>
   \<exists>m. issuer_error claims \<lparr>verify_issuer = issuer config, verify_audience = audience config\<rparr>
          = Some (JsonWebTokenError m)"
  by (auto simp add: issuer_mismatch_def issuer_error_def expected_def split: option.splits)

lemma audience_error_class:
  "audience_error claims opts = Some e \<Longrightarrow> \<exists>m. e = JsonWebTokenError m"
  by (auto simp add: audience_error_def split: option.splits if_splits)

lemma mismatch_thrown:
  assumes "active claims now" and "unexpired claims now"
    and "audience_mismatch claims config \<or> issuer_mismatch claims config"
  shows "\<exists>m. verify_claims claims
               \<lparr>verify_issuer = issuer config, verify_audience = audience config\<rparr> now
             = Inl (JsonWebTokenError m)"
proof -
  let ?opts = "\<lparr>verify_issuer = issuer config, verify_audience = audience config\<rparr>"
  from assms(1,2) have pass:
    "\<not> (obj_get claims ''nbf'' \<noteq> JUndefined \<and> \<not> is_number (obj_get claims ''nbf''))"
    "\<not> not_yet_active claims now"
    "\<not> (obj_get claims ''exp'' \<noteq> JUndefined \<and> \<not> is_number (obj_get claims ''exp''))"
    "\<not> expired claims now"
    by (auto simp add: active_def unexpired_def not_yet_active_def expired_def split: jsval.splits)
  show ?thesis
  proof (cases "audience_error claims ?opts")
    case (Some e)
    with audience_error_class [OF Some] pass show ?thesis
      by (auto simp add: verify_claims_def)
  next
    case None
    with assms(3) audience_mismatch_error [of claims config] have "issuer_mismatch claims config"
      by auto
    from issuer_mismatch_error [OF this] None pass show ?thesis
      by (auto simp add: verify_claims_def)
  qed
qed

text \<open>
  C5, as stated, fails for a failure that is neither of signature or structure nor of
  expiration: a well-signed, unexpired token whose issuer is not the one the
  configuration expects makes the library throw, and \<^verbatim>\<open>verify\<close> answers "Invalid token",
  not "Token verification failed".
\<close>

theorem verify_issuer_mismatch_counterexample:
  "JWTStrategy_generateToken plain_libs ref_strategy_config alice_stored world_created
     = (Inr (plain_sign alice_claims ''s3cret''), world_created)
   \<and> jws_parse plain_jws (plain_sign alice_claims ''s3cret'') (secret issuer_config)
       = Verified (json_object plain_date alice_claims)
   \<and> unexpired (json_object plain_date alice_claims) (date_now plain_jws world1 div 1000)
   \<and> jwt_verify plain_libs (plain_sign alice_claims ''s3cret'') (secret issuer_config)
        \<lparr>verify_issuer = issuer issuer_config, verify_audience = audience issuer_config\<rparr> world1
       = (Inl (JsonWebTokenError ''jwt issuer invalid. expected: acme''), world1)
   \<and> JWTStrategy_verify plain_libs issuer_config (plain_sign alice_claims ''s3cret'') world1 =
       (Inr \<lparr>success = False, user = None, token = None,
             error = Some ''Invalid token'', errors = None\<rparr>, world1)"
  by (simp add: io_defs jwt_defs ref_defs plain_defs plain_parse_sign
        obj_get_def obj_keys_def obj_spread_def)

text \<open>
  C5, amended: \<^verbatim>\<open>verify\<close> reports a failure with one of three messages. A token that is
  not a signed token the library can use, or whose signature does not verify under the
  secret, gives "Invalid token". A well-signed, active token whose expiration has elapsed
  gives "Token expired". A well-signed token that is not yet active, or that is active
  and unexpired but whose audience or issuer is not the configured one, gives
  "Invalid token" as well: these are errors of the library's own class. An exception from
  outside that class, as decoding may throw, gives "Token verification failed". The
  world is left as it was.
\<close>

theorem verify_failure_causes:
  assumes lib: "jwt_verify L = jsonwebtoken_verify P"
  shows "(jws_parse P tok1 (secret config) = Malformed m1 \<longrightarrow>
            JWTStrategy_verify L config tok1 w1 =
              (Inr \<lparr>success = False, user = None, token = None,
                    error = Some ''Invalid token'', errors = None\<rparr>, w1))
       \<and> (jws_parse P tok2 (secret config) = BadSignature \<longrightarrow>
            JWTStrategy_verify L config tok2 w2 =
              (Inr \<lparr>success = False, user = None, token = None,
                    error = Some ''Invalid token'', errors = None\<rparr>, w2))
       \<and> (jws_parse P tok3 (secret config) = Verified claims3 \<longrightarrow>
            active claims3 (date_now P w3 div 1000) \<longrightarrow>
            expired claims3 (date_now P w3 div 1000) \<longrightarrow>
            JWTStrategy_verify L config tok3 w3 =
              (Inr \<lparr>success = False, user = None, token = None,
                    error = Some ''Token expired'', errors = None\<rparr>, w3))
       \<and> (jws_parse P tok4 (secret config) = Verified claims4 \<longrightarrow>
            not_yet_active claims4 (date_now P w4 div 1000) \<longrightarrow>
            JWTStrategy_verify L config tok4 w4 =
              (Inr \<lparr>success = False, user = None, token = None,
                    error = Some ''Invalid token'', errors = None\<rparr>, w4))
       \<and> (jws_parse P tok5 (secret config) = Verified claims5 \<longrightarrow>
            active claims5 (date_now P w5 div 1000) \<longrightarrow>
            unexpired claims5 (date_now P w5 div 1000) \<longrightarrow>
            audience_mismatch claims5 config \<or> issuer_mismatch claims5 config \<longrightarrow>
            JWTStrategy_verify L config tok5 w5 =
              (Inr \<lparr>success = False, user = None, token = None,
                    error = Some ''Invalid token'', errors = None\<rparr>, w5))
       \<and> (jws_parse P tok6 (secret config) = DecodeThrows m6 \<longrightarrow>
            JWTStrategy_verify L config tok6 w6 =
              (Inr \<lparr>success = False, user = None, token = None,
                    error = Some ''Token verification failed'', errors = None\<rparr>, w6))"
proof (intro conjI impI)
  let ?opts = "\<lparr>verify_issuer = issuer config, verify_audience = audience config\<rparr>"
  {
    assume "jws_parse P tok1 (secret config) = Malformed m1"
    then have "jwt_verify L tok1 (secret config) ?opts w1 = (Inl (JsonWebTokenError m1), w1)"
      by (simp add: lib jsonwebtoken_verify_def)
    from verify_thrown [OF this]
    show "JWTStrategy_verify L config tok1 w1 =
              (Inr \<lparr>success = False, user = None, token = None,
                    error = Some ''Invalid token'', errors = None\<rparr>, w1)"
      by simp
  }
  {
    assume "jws_parse P tok2 (secret config) = BadSignature"
    then have "jwt_verify L tok2 (secret config) ?opts w2
                 = (Inl (JsonWebTokenError ''invalid signature''), w2)"
      by (simp add: lib jsonwebtoken_verify_def)
    from verify_thrown [OF this]
    show "JWTStrategy_verify L config tok2 w2 =
              (Inr \<lparr>success = False, user = None, token = None,
                    error = Some ''Invalid token'', errors = None\<rparr>, w2)"
      by simp
  }
  {
    assume "jws_parse P tok3 (secret config) = Verified claims3"
      and "active claims3 (date_now P w3 div 1000)"
      and "expired claims3 (date_now P w3 div 1000)"
    then have "jwt_verify L tok3 (secret config) ?opts w3
                 = (Inl (TokenExpiredError ''jwt expired''), w3)"
      by (auto simp add: lib jsonwebtoken_verify_def verify_claims_def active_def expired_def
            not_yet_active_def split: jsval.splits)
    from verify_thrown [OF this]
    show "JWTStrategy_verify L config tok3 w3 =
              (Inr \<lparr>success = False, user = None, token = None,
                    error = Some ''Token expired'', errors = None\<rparr>, w3)"
      by simp
  }
  {
    assume "jws_parse P tok4 (secret config) = Verified claims4"
      and "not_yet_active claims4 (date_now P w4 div 1000)"
    then have "jwt_verify L tok4 (secret config) ?opts w4
                 = (Inl (JsonWebTokenError ''jwt not active''), w4)"
      by (auto simp add: lib jsonwebtoken_verify_def verify_claims_def not_yet_active_def
            split: jsval.splits)
    from verify_thrown [OF this]
    show "JWTStrategy_verify L config tok4 w4 =
              (Inr \<lparr>success = False, user = None, token = None,
                    error = Some ''Invalid token'', errors = None\<rparr>, w4)"
      by simp
  }
  {
    assume parsed: "jws_parse P tok5 (secret config) = Verified claims5"
      and "active claims5 (date_now P w5 div 1000)"
      and "unexpired claims5 (date_now P w5 div 1000)"
      and "audience_mismatch claims5 config \<or> issuer_mismatch claims5 config"
    from mismatch_thrown [OF this(2-4)] obtain m where
      "verify_claims claims5 ?opts (date_now P w5 div 1000) = Inl (JsonWebTokenError m)" ..
    with parsed have "jwt_verify L tok5 (secret config) ?opts w5 = (Inl (JsonWebTokenError m), w5)"
      by (simp add: lib jsonwebtoken_verify_def)
    from verify_thrown [OF this]
    show "JWTStrategy_verify L config tok5 w5 =
              (Inr \<lparr>success = False, user = None, token = None,
                    error = Some ''Invalid token'', errors = None\<rparr>, w5)"
      by simp
  }
  {
    assume "jws_parse P tok6 (secret config) = DecodeThrows m6"
    then have "jwt_verify L tok6 (secret config) ?opts w6 = (Inl (Error m6), w6)"
      by (simp add: lib jsonwebtoken_verify_def)
    from verify_thrown [OF this]
    show "JWTStrategy_verify L config tok6 w6 =
              (Inr \<lparr>success = False, user = None, token = None,
                    error = Some ''Token verification failed'', errors = None\<rparr>, w6)"
      by simp
  }
qed

theorem verify_failure_causes_witness:
  "JWTStrategy_verify plain_libs issuer_config ''garbage'' world1 =
     (Inr \<lparr>success = False, user = None, token = None,
           error = Some ''Invalid token'', errors = None\<rparr>, world1)
   \<and> JWTStrategy_verify plain_libs issuer_config (plain_sign alice_claims ''forged'') world1 =
     (Inr \<lparr>success = False, user = None, token = None,
           error = Some ''Invalid token'', errors = None\<rparr>, world1)
   \<and> JWTStrategy_verify plain_libs issuer_config (plain_sign alice_claims ''s3cret'') world_later =
     (Inr \<lparr>success = False, user = None, token = None,
           error = Some ''Token expired'', errors = None\<rparr>, world_later)
   \<and> JWTStrategy_verify plain_libs issuer_config
        (plain_sign [(''sub'', JStr ''uuid-''), (''nbf'', JNum 4102444800)] ''s3cret'') world1 =
     (Inr \<lparr>success = False, user = None, token = None,
           error = Some ''Invalid token'', errors = None\<rparr>, world1)
   \<and> JWTStrategy_verify plain_libs issuer_config (plain_sign alice_claims ''s3cret'') world1 =
     (Inr \<lparr>success = False, user = None, token = None,
           error = Some ''Invalid token'', errors = None\<rparr>, world1)
   \<and> JWTStrategy_verify plain_libs issuer_config ''e30.bm90IGpzb24.sig'' world1 =
     (Inr \<lparr>success = False, user = None, token = None,
           error = Some ''Token verification failed'', errors = None\<rparr>, world1)"
proof -
  let ?nbf = "[(''sub'', JStr ''uuid-''), (''nbf'', JNum 4102444800)]"
  let ?decoded = "json_object plain_date alice_claims"
  have lib: "jwt_verify plain_libs = jsonwebtoken_verify plain_jws"
    by (simp add: plain_libs_def)
  have key: "secret issuer_config = ''s3cret''"
    by (simp add: issuer_config_def ref_strategy_config_def new_JWTStrategyConfig_def
          ref_jwt_config_def)
  have garbage: "jws_parse plain_jws ''garbage'' (secret issuer_config) = Malformed ''jwt malformed''"
    by (simp add: key plain_jws_def plain_parse_def)
  have forged: "jws_parse plain_jws (plain_sign alice_claims ''forged'') (secret issuer_config)
                  = BadSignature"
    by (simp add: key plain_jws_def plain_parse_sign)
  have signed: "jws_parse plain_jws (plain_sign alice_claims ''s3cret'') (secret issuer_config)
                  = Verified ?decoded"
    by (simp add: key plain_jws_def plain_parse_sign)
  have early: "jws_parse plain_jws (plain_sign ?nbf ''s3cret'') (secret issuer_config)
                  = Verified (json_object plain_date ?nbf)"
    by (simp add: key plain_jws_def plain_parse_sign)
  have thrown: "jws_parse plain_jws ''e30.bm90IGpzb24.sig'' (secret issuer_config)
                  = DecodeThrows ''Unexpected token in JSON at position 0''"
    by (simp add: key plain_jws_def plain_parse_def)
  have active_later: "active ?decoded (date_now plain_jws world_later div 1000)"
    and expired_later: "expired ?decoded (date_now plain_jws world_later div 1000)"
    and active_now: "active ?decoded (date_now plain_jws world1 div 1000)"
    and unexpired_now: "unexpired ?decoded (date_now plain_jws world1 div 1000)"
    and mismatch: "audience_mismatch ?decoded issuer_config \<or> issuer_mismatch ?decoded issuer_config"
    and not_yet: "not_yet_active (json_object plain_date ?nbf) (date_now plain_jws world1 div 1000)"
    by (simp_all add: plain_defs obj_get_def world1_def world0_def ref_strategy_config_def
          new_JWTStrategyConfig_def ref_jwt_config_def)
  from verify_failure_causes [OF lib, where config = issuer_config
      and ?tok1.0 = "''garbage''" and ?m1.0 = "''jwt malformed''" and ?w1.0 = world1
      and ?tok2.0 = "plain_sign alice_claims ''forged''" and ?w2.0 = world1
      and ?tok3.0 = "plain_sign alice_claims ''s3cret''" and ?claims3.0 = ?decoded
      and ?w3.0 = world_later
      and ?tok4.0 = "plain_sign ?nbf ''s3cret''" and ?claims4.0 = "json_object plain_date ?nbf"
      and ?w4.0 = world1
      and ?tok5.0 = "plain_sign alice_claims ''s3cret''" and ?claims5.0 = ?decoded
      and ?w5.0 = world1
      and ?tok6.0 = "''e30.bm90IGpzb24.sig''"
      and ?m6.0 = "''Unexpected token in JSON at position 0''" and ?w6.0 = world1]
    garbage forged signed early thrown active_later expired_later active_now unexpired_now
    mismatch not_yet
  show ?thesis
    by simp
qed

end
